theory Spec2Isabelle
  imports Main
begin

section \<open>JavaScript strings and values\<close>

text \<open>
  The service is a single Express program, \<^verbatim>\<open>server.js\<close>, kept in two variants: the
  \<^emph>\<open>simple\<close> one (platform auto-detected from the URL, no cache) and the \<^emph>\<open>cached\<close>
  one (explicit \<^verbatim>\<open>platform\<close> parameter, response cache, age-verification branch in the
  error middleware). Both are embedded here, each function under the name it has in the
  source, with the suffix \<open>_simple\<close> or \<open>_cached\<close> where the two variants differ.

  Strings are \<^typ>\<open>string\<close>. Host names produced by the URL parser are ASCII, so
  \<^verbatim>\<open>toLowerCase\<close> is the ASCII lower-casing.
\<close>

definition toLowerChar :: "char \<Rightarrow> char" where
  "toLowerChar c =
     (let n = (of_char c :: nat) in if 65 \<le> n \<and> n \<le> 90 then char_of (n + 32) else c)"

definition toLowerCase :: "string \<Rightarrow> string" where
  "toLowerCase s = map toLowerChar s"

fun startsWith :: "string \<Rightarrow> string \<Rightarrow> bool" where
  "startsWith s [] = True"
| "startsWith [] (p # ps) = False"
| "startsWith (c # cs) (p # ps) = (c = p \<and> startsWith cs ps)"

text \<open>\<^verbatim>\<open>String.prototype.includes\<close>: the search string occurs at some position.\<close>

fun str_includes :: "string \<Rightarrow> string \<Rightarrow> bool" where
  "str_includes [] p = (p = [])"
| "str_includes (c # cs) p = (startsWith (c # cs) p \<or> str_includes cs p)"

text \<open>
  A format object of the YouTube library; the program reads only its \<^verbatim>\<open>url\<close>.
\<close>

record format =
  fmt_url :: string
  itag :: nat

text \<open>
  The values the handlers put into response bodies. \<open>JStream u f\<close> is the live
  readable stream object that the call \<^verbatim>\<open>ytdl(url, {format, requestOptions})\<close> returns.
  \<open>JStreamClone u f\<close> is a deep copy of that object, as the cache library makes one: the
  copy carries \<^verbatim>\<open>_writev: null\<close> as a property of its own, which the live object only
  inherits from its prototype, so the JSON text of the copy differs from that of the
  live object. Equal values have the same JSON text.
\<close>

datatype jsval =
    JUndefined
  | JBool bool
  | JStr string
  | JStream string format
  | JStreamClone string format
  | JObj "(string \<times> jsval) list"

text \<open>
  The deep copy of a value: plain data is copied as it is, a stream object (live, or
  itself a copy) becomes a copy.
\<close>

primrec clone :: "jsval \<Rightarrow> jsval" where
  "clone JUndefined = JUndefined"
| "clone (JBool b) = JBool b"
| "clone (JStr s) = JStr s"
| "clone (JStream u f) = JStreamClone u f"
| "clone (JStreamClone u f) = JStreamClone u f"
| "clone (JObj fs) = JObj (map (map_prod id clone) fs)"

text \<open>JavaScript truthiness, as \<^verbatim>\<open>if (cachedData)\<close> applies it.\<close>

fun truthy :: "jsval \<Rightarrow> bool" where
  "truthy JUndefined = False"
| "truthy (JBool b) = b"
| "truthy (JStr s) = (s \<noteq> [])"
| "truthy (JStream u f) = True"
| "truthy (JStreamClone u f) = True"
| "truthy (JObj fs) = True"

definition field :: "jsval \<Rightarrow> string \<Rightarrow> jsval option" where
  "field v k = (case v of JObj fs \<Rightarrow> map_of fs k | _ \<Rightarrow> None)"

definition is_success :: "jsval \<Rightarrow> bool" where
  "is_success v = (field v ''success'' = Some (JBool True))"

section \<open>External collaborators\<close>

text \<open>
  What the extraction libraries return. \<open>thumbnails\<close> lists the \<^verbatim>\<open>url\<close> of each
  thumbnail object of \<^verbatim>\<open>info.videoDetails.thumbnails\<close>.
\<close>

record video_info =
  title :: string
  thumbnails :: "string list"
  lengthSeconds :: string
  author_name :: string
  formats :: "format list"

record ig_response =
  url_list :: "string list"
  ig_type :: string

text \<open>
  The libraries and the platform are parameters of the model. A library call that
  throws or rejects returns \<open>Inl m\<close>, \<open>m\<close> the \<^verbatim>\<open>message\<close> of the error. The two
  network calls take the time of the call, since the upstream answer may change.
  \<open>url_hostname u\<close> is \<^verbatim>\<open>new URL(u).hostname\<close>, \<open>None\<close> when the constructor throws.
\<close>

record env =
  node_env :: "string option"
  url_hostname :: "string \<Rightarrow> string option"
  validateURL :: "string \<Rightarrow> bool"
  getInfo :: "nat \<Rightarrow> string \<Rightarrow> string + video_info"
  chooseFormat :: "format list \<Rightarrow> string + format"
  instagramGetUrl :: "nat \<Rightarrow> string \<Rightarrow> string + ig_response"

text \<open>The calls a handler makes to the extraction adapters, in order.\<close>

datatype ext_call = GetInfo string | YtdlStream string | InstagramGetUrl string

section \<open>Platform detection (simple variant)\<close>

definition detectPlatform :: "(string \<Rightarrow> string option) \<Rightarrow> string \<Rightarrow> string option" where
  "detectPlatform hostname_of u =
     (case hostname_of u of
        None \<Rightarrow> None
      | Some h \<Rightarrow>
          (let hostname = toLowerCase h in
           if str_includes hostname ''youtube.com'' \<or> str_includes hostname ''youtu.be''
           then Some ''youtube''
           else if str_includes hostname ''instagram.com'' then Some ''instagram''
           else None))"

text \<open>
  The words of the specification, for comparison: a host name \<^emph>\<open>contains\<close> a string
  when the string occurs in it between some prefix and some suffix.
\<close>

definition spec_contains :: "string \<Rightarrow> string \<Rightarrow> bool" where
  "spec_contains h s = (\<exists>pre suf. h = pre @ s @ suf)"

section \<open>Replies\<close>

type_synonym reply = "nat \<times> jsval"

definition err_body :: "string \<Rightarrow> jsval" where
  "err_body m = JObj [(''success'', JBool False), (''error'', JStr m)]"

text \<open>
  The message of the \<^verbatim>\<open>TypeError\<close> raised by \<^verbatim>\<open>thumbnails[0].url\<close> on an empty
  thumbnail list.
\<close>

definition type_error_url :: string where
  "type_error_url = ''Cannot read properties of undefined (reading 'url')''"

definition youtube_videoInfo :: "video_info \<Rightarrow> string \<Rightarrow> jsval \<Rightarrow> jsval" where
  "youtube_videoInfo info thumb d =
     JObj [(''success'', JBool True),
           (''platform'', JStr ''youtube''),
           (''title'', JStr (title info)),
           (''thumbnail'', JStr thumb),
           (''duration'', JStr (lengthSeconds info)),
           (''author'', JStr (author_name info)),
           (''download_url'', d)]"

definition instagram_videoInfo :: "ig_response \<Rightarrow> string \<Rightarrow> jsval" where
  "instagram_videoInfo r first =
     JObj [(''success'', JBool True),
           (''platform'', JStr ''instagram''),
           (''download_url'', JStr first),
           (''type'', JStr (ig_type r))]"

section \<open>The video handler, simple variant\<close>

text \<open>
  The handler of \<^verbatim>\<open>GET /api/video\<close>. A request is handled at one instant \<open>t\<close>, the
  requests one after the other. Each function returns, beside its result, the calls it
  made to the extraction adapters.
\<close>

definition getYouTubeDownloadUrl_simple :: "env \<Rightarrow> string \<Rightarrow> video_info \<Rightarrow> string + jsval" where
  "getYouTubeDownloadUrl_simple E u info =
     (case chooseFormat E (formats info) of
        Inl m \<Rightarrow> Inl m
      | Inr f \<Rightarrow> Inr (JStr (fmt_url f)))"

text \<open>
  The body of the \<^verbatim>\<open>try\<close> block: \<open>Inl m\<close> is an exception with message \<open>m\<close>, \<open>Inr\<close>
  the reply that was sent.
\<close>

definition youtube_case_simple :: "env \<Rightarrow> nat \<Rightarrow> string \<Rightarrow> (string + reply) \<times> ext_call list" where
  "youtube_case_simple E t u =
     (if \<not> validateURL E u then (Inr (400, err_body ''Invalid YouTube URL''), [])
      else case getInfo E t u of
        Inl m \<Rightarrow> (Inl m, [GetInfo u])
      | Inr info \<Rightarrow>
          (case thumbnails info of
             [] \<Rightarrow> (Inl type_error_url, [GetInfo u])
           | thumb # _ \<Rightarrow>
               (case getYouTubeDownloadUrl_simple E u info of
                  Inl m \<Rightarrow> (Inl m, [GetInfo u])
                | Inr d \<Rightarrow> (Inr (200, youtube_videoInfo info thumb d), [GetInfo u]))))"

definition instagram_case_simple :: "env \<Rightarrow> nat \<Rightarrow> string \<Rightarrow> (string + reply) \<times> ext_call list" where
  "instagram_case_simple E t u =
     (case instagramGetUrl E t u of
        Inl m \<Rightarrow> (Inl m, [InstagramGetUrl u])
      | Inr igResponse \<Rightarrow>
          (case url_list igResponse of
             [] \<Rightarrow> (Inr (400, err_body ''No downloadable URL found''), [InstagramGetUrl u])
           | first # _ \<Rightarrow>
               (Inr (200, instagram_videoInfo igResponse first), [InstagramGetUrl u])))"

definition video_try_simple :: "env \<Rightarrow> nat \<Rightarrow> string option \<Rightarrow> (string + reply) \<times> ext_call list" where
  "video_try_simple E t q_url =
     (case q_url of
        None \<Rightarrow> (Inr (400, err_body ''URL is required''), [])
      | Some u \<Rightarrow>
          if u = [] then (Inr (400, err_body ''URL is required''), [])
          else
            (case detectPlatform (url_hostname E) u of
               None \<Rightarrow>
                 (Inr (400, err_body
                    ''Unsupported platform. Please provide a valid YouTube or Instagram URL''), [])
             | Some platform \<Rightarrow>
                 if platform = ''youtube'' then youtube_case_simple E t u
                 else if platform = ''instagram'' then instagram_case_simple E t u
                 else (Inr (200, JUndefined), [])))"

text \<open>The handler: the \<^verbatim>\<open>try\<close> block, and the \<^verbatim>\<open>catch\<close> that answers 500 with the message.\<close>

definition api_video_simple :: "env \<Rightarrow> nat \<Rightarrow> string option \<Rightarrow> reply \<times> ext_call list" where
  "api_video_simple E t q_url =
     (case video_try_simple E t q_url of
        (Inl m, calls) \<Rightarrow> ((500, err_body m), calls)
      | (Inr r, calls) \<Rightarrow> (r, calls))"

section \<open>The response cache\<close>

text \<open>
  Modelled from the spec: the cache library (\<^verbatim>\<open>node-cache\<close>) is not part of the
  sources; the program creates the cache with \<^verbatim>\<open>stdTTL: 3600\<close> and calls \<^verbatim>\<open>get\<close> and
  \<^verbatim>\<open>set\<close>. An entry holds a value and the time, in milliseconds, at which it expires:
  \<open>stdTTL\<close> seconds after insertion. Entries expire passively: an expired entry is
  no longer returned by \<open>cache_get\<close>. The library is used with its default of storing
  and returning deep copies: \<open>cache_set\<close> stores a copy of the value it is given, and
  \<open>cache_get\<close> returns a copy of the value it holds.
\<close>

type_synonym cache = "string \<rightharpoonup> (jsval \<times> nat)"

definition stdTTL :: nat where
  "stdTTL = 3600"

definition cache_get :: "nat \<Rightarrow> cache \<Rightarrow> string \<Rightarrow> jsval option" where
  "cache_get t c k =
     (case c k of
        None \<Rightarrow> None
      | Some (v, expires) \<Rightarrow> if expires < t then None else Some (clone v))"

definition cache_set :: "nat \<Rightarrow> cache \<Rightarrow> string \<Rightarrow> jsval \<Rightarrow> cache" where
  "cache_set t c k v = c(k \<mapsto> (clone v, t + stdTTL * 1000))"

definition cache_all_success :: "cache \<Rightarrow> bool" where
  "cache_all_success c = (\<forall>k v e. c k = Some (v, e) \<longrightarrow> is_success v)"

section \<open>The video handler, cached variant\<close>

definition cacheKey :: "string \<Rightarrow> string" where
  "cacheKey u = ''video_'' @ u"

text \<open>
  The cached variant's \<^verbatim>\<open>getYouTubeDownloadUrl\<close>: it chooses the format and returns what
  the call \<^verbatim>\<open>ytdl(url, ...).on('error', ...)\<close> returns, which is the stream; an exception
  of \<^verbatim>\<open>chooseFormat\<close> is caught and replaced by a fixed message.
\<close>

definition getYouTubeDownloadUrl_cached ::
  "env \<Rightarrow> string \<Rightarrow> video_info \<Rightarrow> (string + jsval) \<times> ext_call list" where
  "getYouTubeDownloadUrl_cached E u info =
     (case chooseFormat E (formats info) of
        Inl m \<Rightarrow> (Inl ''Unable to process YouTube video. Please try again later.'', [])
      | Inr f \<Rightarrow> (Inr (JStream u f), [YtdlStream u]))"

text \<open>The inner \<^verbatim>\<open>try\<close> block of the YouTube case, up to the object \<^verbatim>\<open>videoInfo\<close>.\<close>

definition youtube_try_cached :: "env \<Rightarrow> nat \<Rightarrow> string \<Rightarrow> (string + jsval) \<times> ext_call list" where
  "youtube_try_cached E t u =
     (case getInfo E t u of
        Inl m \<Rightarrow> (Inl m, [GetInfo u])
      | Inr info \<Rightarrow>
          (case thumbnails info of
             [] \<Rightarrow> (Inl type_error_url, [GetInfo u])
           | thumb # _ \<Rightarrow>
               (case getYouTubeDownloadUrl_cached E u info of
                  (Inl m, calls) \<Rightarrow> (Inl m, GetInfo u # calls)
                | (Inr d, calls) \<Rightarrow> (Inr (youtube_videoInfo info thumb d), GetInfo u # calls))))"

definition youtube_case_cached ::
  "env \<Rightarrow> nat \<Rightarrow> string \<Rightarrow> cache \<Rightarrow> reply \<times> cache \<times> ext_call list" where
  "youtube_case_cached E t u c =
     (if \<not> validateURL E u then ((400, err_body ''Invalid YouTube URL''), c, [])
      else case youtube_try_cached E t u of
        (Inl m, calls) \<Rightarrow>
          ((400, err_body (''Unable to process YouTube video. '' @ m)), c, calls)
      | (Inr videoInfo, calls) \<Rightarrow>
          ((200, videoInfo), cache_set t c (cacheKey u) videoInfo, calls))"

definition instagram_case_cached ::
  "env \<Rightarrow> nat \<Rightarrow> string \<Rightarrow> cache \<Rightarrow> reply \<times> cache \<times> ext_call list" where
  "instagram_case_cached E t u c =
     (case instagramGetUrl E t u of
        Inl m \<Rightarrow>
          ((400, err_body (''Unable to process Instagram video. '' @ m)), c, [InstagramGetUrl u])
      | Inr igResponse \<Rightarrow>
          (case url_list igResponse of
             [] \<Rightarrow> ((400, err_body ''No downloadable URL found''), c, [InstagramGetUrl u])
           | first # _ \<Rightarrow>
               (let videoInfo = instagram_videoInfo igResponse first in
                ((200, videoInfo), cache_set t c (cacheKey u) videoInfo, [InstagramGetUrl u]))))"

text \<open>The \<^verbatim>\<open>switch (platform)\<close> with its \<^verbatim>\<open>default\<close> case.\<close>

definition platform_switch_cached ::
  "env \<Rightarrow> nat \<Rightarrow> string \<Rightarrow> string \<Rightarrow> cache \<Rightarrow> reply \<times> cache \<times> ext_call list" where
  "platform_switch_cached E t u platform c =
     (if platform = ''youtube'' then youtube_case_cached E t u c
      else if platform = ''instagram'' then instagram_case_cached E t u c
      else ((400, err_body ''Unsupported platform''), c, []))"

text \<open>
  The handler: the check of the two parameters, the cache lookup, then the switch. It
  returns the reply, the cache and the adapter calls. The calls that throw in this model
  (the adapters, the access to the first thumbnail) all sit in an inner \<^verbatim>\<open>try\<close>, so the
  outer \<^verbatim>\<open>catch\<close> (status 500) is never entered; \<^verbatim>\<open>res.json\<close> sends the object as it is.
\<close>

definition api_video_cached ::
  "env \<Rightarrow> nat \<Rightarrow> string option \<Rightarrow> string option \<Rightarrow> cache \<Rightarrow> reply \<times> cache \<times> ext_call list" where
  "api_video_cached E t q_url q_platform c =
     (case (q_url, q_platform) of
        (Some u, Some platform) \<Rightarrow>
          if u = [] \<or> platform = [] then
            ((400, err_body ''URL and platform are required''), c, [])
          else
            (case cache_get t c (cacheKey u) of
               Some cachedData \<Rightarrow>
                 if truthy cachedData then ((200, cachedData), c, [])
                 else platform_switch_cached E t u platform c
             | None \<Rightarrow> platform_switch_cached E t u platform c)
      | _ \<Rightarrow> ((400, err_body ''URL and platform are required''), c, []))"

section \<open>The rate limiter\<close>

text \<open>
  Modelled from the spec: the rate-limiting middleware (\<^verbatim>\<open>express-rate-limit\<close>) is not
  part of the sources; the program only configures it (\<^verbatim>\<open>windowMs\<close>, \<^verbatim>\<open>max\<close>,
  \<^verbatim>\<open>message\<close>). Per client address it keeps a counter and the start of the window; a
  request outside the window opens a new one. \<open>limiter_hit\<close> counts a request and
  returns the number of requests of the window, this one included; the request is
  denied when that number exceeds \<open>max_requests\<close>. 429 is the library's status for a
  denied request.
\<close>

type_synonym limiter = "string \<rightharpoonup> (nat \<times> nat)"

definition windowMs :: nat where
  "windowMs = 60 * 60 * 1000"

definition max_requests :: nat where
  "max_requests = 100"

definition limit_message :: jsval where
  "limit_message =
     JObj [(''success'', JBool False),
           (''error'', JStr ''Too many requests from this IP, please try again after an hour'')]"

definition limiter_hit :: "nat \<Rightarrow> string \<Rightarrow> limiter \<Rightarrow> nat \<times> limiter" where
  "limiter_hit t a l =
     (case l a of
        None \<Rightarrow> (1, l(a \<mapsto> (1, t)))
      | Some (n, start) \<Rightarrow>
          if t < start + windowMs then (Suc n, l(a \<mapsto> (Suc n, start)))
          else (1, l(a \<mapsto> (1, t))))"

section \<open>Requests, responses and the middleware chain\<close>

text \<open>
  A request as the program reads it: method, path, the two query parameters, the
  \<^verbatim>\<open>Origin\<close> header, the client address and the time of arrival in milliseconds. Requests
  carry no body. Of the response headers, those are kept that the program's own code
  sets with \<^verbatim>\<open>res.setHeader\<close>.
\<close>

record request =
  req_method :: string
  req_path :: string
  query_url :: "string option"
  query_platform :: "string option"
  req_origin :: "string option"
  req_ip :: string
  req_time :: nat

datatype body = JsonBody jsval | TextBody string | EmptyBody | SwaggerBody | FinalBody

type_synonym headers = "(string \<times> string) list"

record response =
  res_status :: nat
  res_headers :: headers
  res_body :: body

definition setHeader :: "string \<Rightarrow> string \<Rightarrow> headers \<Rightarrow> headers" where
  "setHeader k v hs = (k, v) # filter (\<lambda>kv. fst kv \<noteq> k) hs"

text \<open>
  A middleware sends the response, calls \<^verbatim>\<open>next()\<close>, or calls \<^verbatim>\<open>next(err)\<close>. Express
  runs the layers in the order of their registration; layers registered with four
  arguments are error handlers, skipped until some layer calls \<^verbatim>\<open>next(err)\<close>, and the
  others are skipped from then on. When no layer is left, Express's final handler
  answers (404, or 500 for an error).
\<close>

datatype 'st outcome =
    Sent response 'st
  | Next headers 'st
  | NextErr string headers 'st

datatype 'st layer =
    Use "request \<Rightarrow> headers \<Rightarrow> 'st \<Rightarrow> 'st outcome"
  | UseErr "string \<Rightarrow> request \<Rightarrow> headers \<Rightarrow> 'st \<Rightarrow> 'st outcome"

fun dispatch :: "'st layer list \<Rightarrow> request \<Rightarrow> headers \<Rightarrow> 'st \<Rightarrow> response \<times> 'st"
  and dispatch_err :: "'st layer list \<Rightarrow> string \<Rightarrow> request \<Rightarrow> headers \<Rightarrow> 'st \<Rightarrow> response \<times> 'st"
where
  "dispatch [] rq hs st = (\<lparr>res_status = 404, res_headers = hs, res_body = FinalBody\<rparr>, st)"
| "dispatch (Use m # ls) rq hs st =
     (case m rq hs st of
        Sent r st' \<Rightarrow> (r, st')
      | Next hs' st' \<Rightarrow> dispatch ls rq hs' st'
      | NextErr e hs' st' \<Rightarrow> dispatch_err ls e rq hs' st')"
| "dispatch (UseErr h # ls) rq hs st = dispatch ls rq hs st"
| "dispatch_err [] e rq hs st =
     (\<lparr>res_status = 500, res_headers = hs, res_body = FinalBody\<rparr>, st)"
| "dispatch_err (Use m # ls) e rq hs st = dispatch_err ls e rq hs st"
| "dispatch_err (UseErr h # ls) e rq hs st =
     (case h e rq hs st of
        Sent r st' \<Rightarrow> (r, st')
      | Next hs' st' \<Rightarrow> dispatch ls rq hs' st'
      | NextErr e' hs' st' \<Rightarrow> dispatch_err ls e' rq hs' st')"

text \<open>Route matching: case-insensitive, with an optional trailing slash.\<close>

definition route_path :: "string \<Rightarrow> string \<Rightarrow> bool" where
  "route_path pat p =
     (toLowerCase p = pat \<or> (pat \<noteq> ''/'' \<and> toLowerCase p = pat @ ''/''))"

definition mounted_at :: "string \<Rightarrow> string \<Rightarrow> bool" where
  "mounted_at pat p = (toLowerCase p = pat \<or> startsWith (toLowerCase p) (pat @ ''/''))"

definition is_get :: "request \<Rightarrow> bool" where
  "is_get rq = (req_method rq = ''GET'' \<or> req_method rq = ''HEAD'')"

definition is_video_route :: "request \<Rightarrow> bool" where
  "is_video_route rq = (is_get rq \<and> route_path ''/api/video'' (req_path rq))"

text \<open>
  Layers that only call \<^verbatim>\<open>next()\<close> on a request without body: \<^verbatim>\<open>express.json()\<close>,
  \<^verbatim>\<open>compression()\<close> and the performance monitor.
\<close>

definition express_json :: "request \<Rightarrow> headers \<Rightarrow> 'st \<Rightarrow> 'st outcome" where
  "express_json rq hs st = Next hs st"

definition compression :: "request \<Rightarrow> headers \<Rightarrow> 'st \<Rightarrow> 'st outcome" where
  "compression rq hs st = Next hs st"

definition performance_monitor :: "request \<Rightarrow> headers \<Rightarrow> 'st \<Rightarrow> 'st outcome" where
  "performance_monitor rq hs st = Next hs st"

text \<open>
  The CORS library answers every \<^verbatim>\<open>OPTIONS\<close> request itself (status 204) and lets the
  others through.
\<close>

definition cors_allowed :: "request \<Rightarrow> headers \<Rightarrow> 'st \<Rightarrow> 'st outcome" where
  "cors_allowed rq hs st =
     (if req_method rq = ''OPTIONS''
      then Sent \<lparr>res_status = 204, res_headers = hs, res_body = EmptyBody\<rparr> st
      else Next hs st)"

definition swagger_docs :: "request \<Rightarrow> headers \<Rightarrow> 'st \<Rightarrow> 'st outcome" where
  "swagger_docs rq hs st =
     (if mounted_at ''/api-docs'' (req_path rq)
      then Sent \<lparr>res_status = 200, res_headers = hs, res_body = SwaggerBody\<rparr> st
      else Next hs st)"

definition json_reply :: "reply \<Rightarrow> headers \<Rightarrow> response" where
  "json_reply r hs = \<lparr>res_status = fst r, res_headers = hs, res_body = JsonBody (snd r)\<rparr>"

definition not_found_body :: jsval where
  "not_found_body =
     JObj [(''success'', JBool False),
           (''error'', JStr ''Not Found''),
           (''message'', JStr ''The requested resource does not exist'')]"

section \<open>The application, simple variant\<close>

definition cors_simple :: "request \<Rightarrow> headers \<Rightarrow> 'st \<Rightarrow> 'st outcome" where
  "cors_simple rq hs st = cors_allowed rq hs st"

definition root_body_simple :: jsval where
  "root_body_simple =
     JObj [(''success'', JBool True),
           (''name'', JStr ''Video Downloader API''),
           (''version'', JStr ''1.0.0''),
           (''description'', JStr ''API for downloading videos from YouTube and Instagram''),
           (''endpoints'',
              JObj [(''documentation'', JStr ''/api-docs''),
                    (''video'', JStr ''/api/video?url=VIDEO_URL'')])]"

definition root_route_simple :: "request \<Rightarrow> headers \<Rightarrow> 'st \<Rightarrow> 'st outcome" where
  "root_route_simple rq hs st =
     (if is_get rq \<and> route_path ''/'' (req_path rq)
      then Sent (json_reply (200, root_body_simple) hs) st
      else Next hs st)"

definition video_route_simple :: "env \<Rightarrow> request \<Rightarrow> headers \<Rightarrow> limiter \<Rightarrow> limiter outcome" where
  "video_route_simple E rq hs l =
     (if is_video_route rq then
        (case limiter_hit (req_time rq) (req_ip rq) l of
           (hits, l') \<Rightarrow>
             if max_requests < hits then Sent (json_reply (429, limit_message) hs) l'
             else Sent (json_reply (fst (api_video_simple E (req_time rq) (query_url rq))) hs) l')
      else Next hs l)"

definition error_handler_simple ::
  "env \<Rightarrow> string \<Rightarrow> request \<Rightarrow> headers \<Rightarrow> 'st \<Rightarrow> 'st outcome" where
  "error_handler_simple E err rq hs st =
     Sent (json_reply (500,
        JObj [(''success'', JBool False),
              (''error'', JStr ''Internal Server Error''),
              (''message'', if node_env E = Some ''development'' then JStr err else JUndefined)])
        hs) st"

definition not_found_simple :: "request \<Rightarrow> headers \<Rightarrow> 'st \<Rightarrow> 'st outcome" where
  "not_found_simple rq hs st = Sent (json_reply (404, not_found_body) hs) st"

definition security_headers_simple :: "request \<Rightarrow> headers \<Rightarrow> 'st \<Rightarrow> 'st outcome" where
  "security_headers_simple rq hs st =
     Next (setHeader ''X-XSS-Protection'' ''1; mode=block''
            (setHeader ''X-Frame-Options'' ''DENY''
              (setHeader ''X-Content-Type-Options'' ''nosniff'' hs))) st"

text \<open>The layers in the order in which the simple variant registers them.\<close>

definition app_simple :: "env \<Rightarrow> limiter layer list" where
  "app_simple E =
     [Use cors_simple,
      Use express_json,
      Use swagger_docs,
      Use root_route_simple,
      Use (video_route_simple E),
      UseErr (error_handler_simple E),
      Use not_found_simple,
      Use security_headers_simple]"

definition serve_simple :: "env \<Rightarrow> request \<Rightarrow> limiter \<Rightarrow> response \<times> limiter" where
  "serve_simple E rq l = dispatch (app_simple E) rq [] l"

section \<open>The application, cached variant\<close>

record server_state =
  st_cache :: cache
  st_limiter :: limiter

definition allowedOrigins :: "env \<Rightarrow> string list" where
  "allowedOrigins E =
     (if node_env E = Some ''production''
      then [''https://instasave.world'', ''https://www.instasave.world'', ''http://localhost:3000'']
      else [''http://localhost:3000''])"

definition cors_cached :: "env \<Rightarrow> request \<Rightarrow> headers \<Rightarrow> 'st \<Rightarrow> 'st outcome" where
  "cors_cached E rq hs st =
     (case req_origin rq of
        None \<Rightarrow> cors_allowed rq hs st
      | Some origin \<Rightarrow>
          if origin = [] then cors_allowed rq hs st
          else if origin \<notin> set (allowedOrigins E) then NextErr ''CORS policy violation'' hs st
          else cors_allowed rq hs st)"

definition security_headers_cached :: "request \<Rightarrow> headers \<Rightarrow> 'st \<Rightarrow> 'st outcome" where
  "security_headers_cached rq hs st =
     Next (setHeader ''X-XSS-Protection'' ''1; mode=block''
            (setHeader ''X-Content-Type-Options'' ''nosniff'' hs)) st"

definition ping_route :: "request \<Rightarrow> headers \<Rightarrow> 'st \<Rightarrow> 'st outcome" where
  "ping_route rq hs st =
     (if is_get rq \<and> route_path ''/ping'' (req_path rq)
      then Sent \<lparr>res_status = 200, res_headers = hs, res_body = TextBody ''pong''\<rparr> st
      else Next hs st)"

definition root_body_cached :: jsval where
  "root_body_cached =
     JObj [(''success'', JBool True),
           (''name'', JStr ''Video Downloader API''),
           (''version'', JStr ''1.0.0''),
           (''description'', JStr ''API for downloading videos from YouTube and Instagram''),
           (''endpoints'',
              JObj [(''health'', JStr ''/ping''),
                    (''documentation'', JStr ''/api-docs''),
                    (''video'', JStr ''/api/video?url=VIDEO_URL'')])]"

definition root_route_cached :: "request \<Rightarrow> headers \<Rightarrow> 'st \<Rightarrow> 'st outcome" where
  "root_route_cached rq hs st =
     (if is_get rq \<and> route_path ''/'' (req_path rq)
      then Sent (json_reply (200, root_body_cached) hs) st
      else Next hs st)"

definition video_route_cached ::
  "env \<Rightarrow> request \<Rightarrow> headers \<Rightarrow> server_state \<Rightarrow> server_state outcome" where
  "video_route_cached E rq hs st =
     (if is_video_route rq then
        (case limiter_hit (req_time rq) (req_ip rq) (st_limiter st) of
           (hits, l') \<Rightarrow>
             if max_requests < hits
             then Sent (json_reply (429, limit_message) hs) (st\<lparr>st_limiter := l'\<rparr>)
             else
               (case api_video_cached E (req_time rq) (query_url rq) (query_platform rq)
                       (st_cache st) of
                  (r, c', calls) \<Rightarrow>
                    Sent (json_reply r hs) (st\<lparr>st_cache := c', st_limiter := l'\<rparr>)))
      else Next hs st)"

definition error_handler_cached ::
  "env \<Rightarrow> string \<Rightarrow> request \<Rightarrow> headers \<Rightarrow> 'st \<Rightarrow> 'st outcome" where
  "error_handler_cached E err rq hs st =
     (let hs' = setHeader ''Content-Type'' ''application/json'' hs in
      if str_includes err ''Sign in to confirm'' then
        Sent (json_reply (403,
          err_body ''This video requires age verification. Please try another video.'') hs') st
      else
        Sent (json_reply (500,
          err_body (if node_env E = Some ''production''
                    then ''An unexpected error occurred'' else err)) hs') st)"

definition not_found_cached :: "request \<Rightarrow> headers \<Rightarrow> 'st \<Rightarrow> 'st outcome" where
  "not_found_cached rq hs st =
     Sent (json_reply (404, not_found_body) (setHeader ''Content-Type'' ''application/json'' hs)) st"

text \<open>The layers in the order in which the cached variant registers them.\<close>

definition app_cached :: "env \<Rightarrow> server_state layer list" where
  "app_cached E =
     [Use compression,
      Use performance_monitor,
      Use (cors_cached E),
      Use security_headers_cached,
      Use express_json,
      Use swagger_docs,
      Use ping_route,
      Use root_route_cached,
      Use (video_route_cached E),
      UseErr (error_handler_cached E),
      Use not_found_cached]"

definition serve_cached :: "env \<Rightarrow> request \<Rightarrow> server_state \<Rightarrow> response \<times> server_state" where
  "serve_cached E rq st = dispatch (app_cached E) rq [] st"

text \<open>A sequence of requests, served one after the other.\<close>

definition run_cached :: "env \<Rightarrow> request list \<Rightarrow> server_state \<Rightarrow> server_state" where
  "run_cached E rqs st = foldl (\<lambda>s rq. snd (serve_cached E rq s)) st rqs"

section \<open>Auxiliary predicates\<close>

text \<open>
  Whether the adapter that matches the platform parameter produced a result: for
  YouTube the URL is valid, the metadata arrived, a thumbnail and a format were found;
  for Instagram the resolver returned a non-empty list.
\<close>

definition adapter_succeeded :: "env \<Rightarrow> nat \<Rightarrow> string \<Rightarrow> string \<Rightarrow> bool" where
  "adapter_succeeded E t u platform =
     (if platform = ''youtube'' then
        validateURL E u \<and>
        (case getInfo E t u of
           Inl m \<Rightarrow> False
         | Inr info \<Rightarrow>
             thumbnails info \<noteq> [] \<and>
             (case chooseFormat E (formats info) of Inl m \<Rightarrow> False | Inr f \<Rightarrow> True))
      else if platform = ''instagram'' then
        (case instagramGetUrl E t u of Inl m \<Rightarrow> False | Inr ig \<Rightarrow> url_list ig \<noteq> [])
      else False)"

text \<open>
  Whether the CORS layer of the cached variant lets the request through, and the headers
  its security layer has set from then on.
\<close>

definition cors_ok :: "env \<Rightarrow> request \<Rightarrow> bool" where
  "cors_ok E rq =
     (case req_origin rq of
        None \<Rightarrow> True
      | Some origin \<Rightarrow> origin = [] \<or> origin \<in> set (allowedOrigins E))"

definition security_headers :: headers where
  "security_headers =
     [(''X-XSS-Protection'', ''1; mode=block''), (''X-Content-Type-Options'', ''nosniff'')]"

text \<open>
  Whether a request is counted by the rate limiter of the cached variant for the client
  address \<open>a\<close>: it comes from \<open>a\<close>, passes the CORS layer and matches the video route.
\<close>

definition counted :: "env \<Rightarrow> string \<Rightarrow> request \<Rightarrow> bool" where
  "counted E a rq = (req_ip rq = a \<and> is_video_route rq \<and> cors_ok E rq)"

text \<open>
  Whether a reply is the unsupported-platform error: status 400, \<^verbatim>\<open>success: false\<close>, and
  an error message that starts with \<^verbatim>\<open>Unsupported platform\<close>.
\<close>

definition unsupported_platform_reply :: "reply \<Rightarrow> bool" where
  "unsupported_platform_reply r =
     (fst r = 400 \<and> field (snd r) ''success'' = Some (JBool False) \<and>
      (case field (snd r) ''error'' of
         Some (JStr m) \<Rightarrow> startsWith m ''Unsupported platform''
       | _ \<Rightarrow> False))"

section \<open>An example environment\<close>

text \<open>
  One environment on which the definitions are evaluated: a YouTube video that resolves,
  one that the upstream refuses with the age-verification message, an Instagram post
  with two media links, and a URL of neither platform.
\<close>

definition example_youtube_url :: string where
  "example_youtube_url = ''https://www.youtube.com/watch?v=dQw4w9WgXcQ''"

definition example_restricted_url :: string where
  "example_restricted_url = ''https://www.youtube.com/watch?v=aaaaaaaaaaa''"

definition example_instagram_url :: string where
  "example_instagram_url = ''https://www.instagram.com/p/Cabc123/''"

definition example_other_url :: string where
  "example_other_url = ''https://example.com/video''"

definition example_format :: format where
  "example_format = \<lparr>fmt_url = ''https://rr1.googlevideo.com/videoplayback?id=1'', itag = 18\<rparr>"

definition example_info :: video_info where
  "example_info =
     \<lparr>title = ''Demo'',
      thumbnails = [''https://i.ytimg.com/vi/dQw4w9WgXcQ/default.jpg''],
      lengthSeconds = ''212'',
      author_name = ''Demo Channel'',
      formats = [example_format]\<rparr>"

definition example_ig :: ig_response where
  "example_ig =
     \<lparr>url_list = [''https://cdn.example.net/a.mp4'', ''https://cdn.example.net/b.mp4''],
      ig_type = ''video''\<rparr>"

definition example_env :: env where
  "example_env =
     \<lparr>node_env = None,
      url_hostname = (\<lambda>u.
         if u = example_youtube_url \<or> u = example_restricted_url then Some ''www.youtube.com''
         else if u = example_instagram_url then Some ''www.instagram.com''
         else if u = example_other_url then Some ''example.com''
         else None),
      validateURL = (\<lambda>u. u = example_youtube_url \<or> u = example_restricted_url),
      getInfo = (\<lambda>t u.
         if u = example_youtube_url then Inr example_info
         else Inl ''Sign in to confirm your age''),
      chooseFormat = (\<lambda>fs.
         case fs of [] \<Rightarrow> Inl ''No such format found: highest'' | f # _ \<Rightarrow> Inr f),
      instagramGetUrl = (\<lambda>t u.
         if u = example_instagram_url then Inr example_ig
         else Inl ''Invalid Instagram URL'')\<rparr>"

definition example_cache :: cache where
  "example_cache =
     [cacheKey example_other_url \<mapsto>
        (instagram_videoInfo example_ig ''https://cdn.example.net/a.mp4'', 3600000)]"

definition example_request :: "string \<Rightarrow> string \<Rightarrow> string \<Rightarrow> nat \<Rightarrow> request" where
  "example_request u platform ip t =
     \<lparr>req_method = ''GET'', req_path = ''/api/video'', query_url = Some u,
      query_platform = Some platform, req_origin = None, req_ip = ip, req_time = t\<rparr>"

definition example_state :: server_state where
  "example_state = \<lparr>st_cache = Map.empty, st_limiter = Map.empty\<rparr>"

section \<open>Platform detection follows the specification\<close>

lemma startsWith_iff: "startsWith s p \<longleftrightarrow> (\<exists>suf. s = p @ suf)"
  by (induction s p rule: startsWith.induct) auto

lemma includes_iff: "str_includes s p \<longleftrightarrow> spec_contains s p"
proof (induction s)
  case Nil
  then show ?case by (auto simp: spec_contains_def)
next
  case (Cons c cs)
  show ?case
  proof
    assume "str_includes (c # cs) p"
    then consider "startsWith (c # cs) p" | "str_includes cs p" by auto
    then show "spec_contains (c # cs) p"
    proof cases
      case 1
      then obtain suf where "c # cs = p @ suf" by (auto simp: startsWith_iff)
      then have "c # cs = [] @ p @ suf" by simp
      then show ?thesis unfolding spec_contains_def by blast
    next
      case 2
      with Cons obtain pre suf where "cs = pre @ p @ suf" by (auto simp: spec_contains_def)
      then have "c # cs = (c # pre) @ p @ suf" by simp
      then show ?thesis unfolding spec_contains_def by blast
    qed
  next
    assume "spec_contains (c # cs) p"
    then obtain pre suf where eq: "c # cs = pre @ p @ suf" by (auto simp: spec_contains_def)
    show "str_includes (c # cs) p"
    proof (cases pre)
      case Nil
      with eq have "startsWith (c # cs) p" by (auto simp: startsWith_iff)
      then show ?thesis by simp
    next
      case (Cons a pre')
      with eq have "cs = pre' @ p @ suf" by simp
      then have "spec_contains cs p" unfolding spec_contains_def by blast
      with Cons.IH show ?thesis by simp
    qed
  qed
qed

section \<open>Facts about the handlers\<close>

lemmas example_defs = example_youtube_url_def example_restricted_url_def example_instagram_url_def
  example_other_url_def example_format_def example_info_def example_ig_def example_env_def

lemma clone_idem: "clone (clone v) = clone v"
  by (induction v) (auto simp: list.map_comp prod.map_comp comp_def intro!: list.map_cong0 prod.map_cong0)

lemma map_of_clone:
  "map_of (map (map_prod id clone) fs) k = map_option clone (map_of fs k)"
  by (induction fs) auto

lemma field_clone: "field (clone v) k = map_option clone (field v k)"
  by (cases v) (simp_all add: field_def map_of_clone)

lemma is_success_clone: "is_success v \<Longrightarrow> is_success (clone v)"
  by (simp add: is_success_def field_clone)

lemma clone_instagram_videoInfo: "clone (instagram_videoInfo r first) = instagram_videoInfo r first"
  by (simp add: instagram_videoInfo_def)

lemma clone_youtube_videoInfo:
  "clone (youtube_videoInfo info thumb (JStream u f)) = youtube_videoInfo info thumb (JStreamClone u f)"
  by (simp add: youtube_videoInfo_def)

lemma truthy_youtube_videoInfo: "truthy (youtube_videoInfo info thumb d)"
  by (simp add: youtube_videoInfo_def)

lemma truthy_instagram_videoInfo: "truthy (instagram_videoInfo r first)"
  by (simp add: instagram_videoInfo_def)

lemma is_success_youtube_videoInfo: "is_success (youtube_videoInfo info thumb d)"
  by (simp add: youtube_videoInfo_def is_success_def field_def)

lemma is_success_instagram_videoInfo: "is_success (instagram_videoInfo r first)"
  by (simp add: instagram_videoInfo_def is_success_def field_def)

lemma is_success_truthy: "is_success v \<Longrightarrow> truthy v"
  by (cases v) (simp_all add: is_success_def field_def)

lemma youtube_try_cached_Inr:
  "youtube_try_cached E t u = (Inr v, calls) \<Longrightarrow>
     \<exists>info f. getInfo E t u = Inr info \<and> thumbnails info \<noteq> []
       \<and> chooseFormat E (formats info) = Inr f
       \<and> v = youtube_videoInfo info (hd (thumbnails info)) (JStream u f)
       \<and> calls = [GetInfo u, YtdlStream u]"
  by (auto simp: youtube_try_cached_def getYouTubeDownloadUrl_cached_def
      split: sum.splits list.splits)

lemma youtube_case_cached_cases:
  assumes "youtube_case_cached E t u c = (r, c', calls)"
  shows "(fst r = 400 \<and> c' = c \<and> \<not> is_success (snd r)) \<or>
         (fst r = 200 \<and> c' = cache_set t c (cacheKey u) (snd r) \<and> validateURL E u \<and>
          (\<exists>info f. getInfo E t u = Inr info \<and> thumbnails info \<noteq> []
             \<and> chooseFormat E (formats info) = Inr f
             \<and> snd r = youtube_videoInfo info (hd (thumbnails info)) (JStream u f))
          \<and> calls = [GetInfo u, YtdlStream u])"
proof (cases "validateURL E u")
  case False
  with assms show ?thesis
    by (auto simp: youtube_case_cached_def err_body_def is_success_def field_def)
next
  case True
  obtain x calls0 where tr: "youtube_try_cached E t u = (x, calls0)" by (cases "youtube_try_cached E t u")
  show ?thesis
  proof (cases x)
    case (Inl m)
    with assms True tr show ?thesis
      by (auto simp: youtube_case_cached_def err_body_def is_success_def field_def)
  next
    case (Inr v)
    with tr have "youtube_try_cached E t u = (Inr v, calls0)" by simp
    from youtube_try_cached_Inr[OF this] assms True tr Inr show ?thesis
      by (auto simp: youtube_case_cached_def)
  qed
qed

lemma instagram_case_cached_cases:
  assumes "instagram_case_cached E t u c = (r, c', calls)"
  shows "(fst r = 400 \<and> c' = c \<and> \<not> is_success (snd r)) \<or>
         (fst r = 200 \<and> c' = cache_set t c (cacheKey u) (snd r) \<and>
          (\<exists>ig. instagramGetUrl E t u = Inr ig \<and> url_list ig \<noteq> []
             \<and> snd r = instagram_videoInfo ig (hd (url_list ig)))
          \<and> calls = [InstagramGetUrl u])"
  using assms
  by (auto simp: instagram_case_cached_def err_body_def is_success_def field_def Let_def
      split: sum.splits list.splits)

lemma platform_switch_cached_cases:
  assumes "platform_switch_cached E t u p c = (r, c', calls)"
  shows "(fst r = 400 \<and> c' = c \<and> \<not> is_success (snd r)) \<or>
         (fst r = 200 \<and> c' = cache_set t c (cacheKey u) (snd r) \<and> is_success (snd r)
          \<and> adapter_succeeded E t u p \<and> calls \<noteq> [])"
proof -
  consider "p = ''youtube''" | "p \<noteq> ''youtube''" "p = ''instagram''"
    | "p \<noteq> ''youtube''" "p \<noteq> ''instagram''" by blast
  then show ?thesis
  proof cases
    case 1
    with assms have "youtube_case_cached E t u c = (r, c', calls)"
      by (simp add: platform_switch_cached_def)
    from youtube_case_cached_cases[OF this] 1 show ?thesis
      by (auto simp: is_success_youtube_videoInfo adapter_succeeded_def)
  next
    case 2
    with assms have "instagram_case_cached E t u c = (r, c', calls)"
      by (simp add: platform_switch_cached_def)
    from instagram_case_cached_cases[OF this] 2 show ?thesis
      by (auto simp: is_success_instagram_videoInfo adapter_succeeded_def)
  next
    case 3
    with assms show ?thesis
      by (auto simp: platform_switch_cached_def err_body_def is_success_def field_def)
  qed
qed

lemma api_video_cached_cases:
  assumes "api_video_cached E t q_url q_platform c = (r, c', calls)"
  shows "(fst r = 400 \<and> c' = c \<and> \<not> is_success (snd r)) \<or>
         (fst r = 200 \<and> c' = c \<and> cache_get t c (cacheKey (the q_url)) = Some (snd r) \<and> calls = []) \<or>
         (fst r = 200 \<and> is_success (snd r) \<and> calls \<noteq> [] \<and>
          (\<exists>u p. q_url = Some u \<and> q_platform = Some p \<and> adapter_succeeded E t u p
             \<and> c' = cache_set t c (cacheKey u) (snd r)))"
proof (cases "\<exists>u p. q_url = Some u \<and> q_platform = Some p \<and> u \<noteq> [] \<and> p \<noteq> []")
  case False
  with assms show ?thesis
    by (auto simp: api_video_cached_def err_body_def is_success_def field_def
        split: option.splits if_splits)
next
  case True
  then obtain u p where q: "q_url = Some u" "q_platform = Some p" "u \<noteq> []" "p \<noteq> []" by blast
  show ?thesis
  proof (cases "\<exists>v. cache_get t c (cacheKey u) = Some v \<and> truthy v")
    case True
    with assms q show ?thesis by (auto simp: api_video_cached_def)
  next
    case False
    with assms q have "platform_switch_cached E t u p c = (r, c', calls)"
      by (auto simp: api_video_cached_def split: option.splits if_splits)
    from platform_switch_cached_cases[OF this] q show ?thesis by auto
  qed
qed


lemmas cached_handler_defs = api_video_cached_def platform_switch_cached_def
  youtube_case_cached_def youtube_try_cached_def getYouTubeDownloadUrl_cached_def
  instagram_case_cached_def

lemmas simple_handler_defs = api_video_simple_def video_try_simple_def youtube_case_simple_def
  instagram_case_simple_def getYouTubeDownloadUrl_simple_def

lemma api_video_cached_hit:
  assumes "u \<noteq> []" and "platform \<noteq> []"
    and "cache_get t c (cacheKey u) = Some v" and "truthy v"
  shows "api_video_cached E t (Some u) (Some platform) c = ((200, v), c, [])"
  using assms by (simp add: api_video_cached_def)

lemma switch_unsupported_iff:
  "unsupported_platform_reply (fst (platform_switch_cached E t u platform c))
     \<longleftrightarrow> platform \<noteq> ''youtube'' \<and> platform \<noteq> ''instagram''"
  by (auto simp: platform_switch_cached_def youtube_case_cached_def youtube_try_cached_def
      getYouTubeDownloadUrl_cached_def instagram_case_cached_def unsupported_platform_reply_def
      err_body_def field_def youtube_videoInfo_def instagram_videoInfo_def Let_def
      split: sum.splits list.splits prod.splits)

lemma cache_all_success_set:
  "cache_all_success c \<Longrightarrow> is_success v \<Longrightarrow> cache_all_success (cache_set t c k v)"
  by (auto simp: cache_all_success_def cache_set_def is_success_clone)

section \<open>Facts about the middleware chain\<close>

lemmas layer_defs = compression_def performance_monitor_def cors_cached_def cors_allowed_def
  security_headers_cached_def express_json_def swagger_docs_def ping_route_def
  root_route_cached_def error_handler_cached_def not_found_cached_def setHeader_def

lemma cors_message_not_age: "\<not> str_includes ''CORS policy violation'' ''Sign in to confirm''"
  by simp

text \<open>The cached application, layer by layer, as one case distinction on the request.\<close>

lemma serve_cached_eq:
  "serve_cached E rq st =
     (if \<not> cors_ok E rq then
        (json_reply (500, err_body (if node_env E = Some ''production''
                                    then ''An unexpected error occurred''
                                    else ''CORS policy violation''))
           [(''Content-Type'', ''application/json'')], st)
      else if req_method rq = ''OPTIONS'' then
        (\<lparr>res_status = 204, res_headers = [], res_body = EmptyBody\<rparr>, st)
      else if mounted_at ''/api-docs'' (req_path rq) then
        (\<lparr>res_status = 200, res_headers = security_headers, res_body = SwaggerBody\<rparr>, st)
      else if is_get rq \<and> route_path ''/ping'' (req_path rq) then
        (\<lparr>res_status = 200, res_headers = security_headers, res_body = TextBody ''pong''\<rparr>, st)
      else if is_get rq \<and> route_path ''/'' (req_path rq) then
        (json_reply (200, root_body_cached) security_headers, st)
      else if is_video_route rq then
        (case limiter_hit (req_time rq) (req_ip rq) (st_limiter st) of
           (hits, l') \<Rightarrow>
             if max_requests < hits
             then (json_reply (429, limit_message) security_headers, st\<lparr>st_limiter := l'\<rparr>)
             else
               (case api_video_cached E (req_time rq) (query_url rq) (query_platform rq)
                       (st_cache st) of
                  (r, c', calls) \<Rightarrow>
                    (json_reply r security_headers, st\<lparr>st_cache := c', st_limiter := l'\<rparr>)))
      else
        (json_reply (404, not_found_body)
           ((''Content-Type'', ''application/json'') # security_headers), st))"
  by (simp add: serve_cached_def app_cached_def layer_defs cors_ok_def security_headers_def
      video_route_cached_def cors_message_not_age split: option.splits prod.splits)

lemma video_path_facts:
  assumes "route_path ''/api/video'' p"
  shows "\<not> mounted_at ''/api-docs'' p" "\<not> route_path ''/ping'' p" "\<not> route_path ''/'' p"
proof -
  from assms consider "toLowerCase p = ''/api/video''" | "toLowerCase p = ''/api/video/''"
    by (auto simp: route_path_def)
  then have "\<not> mounted_at ''/api-docs'' p \<and> \<not> route_path ''/ping'' p \<and> \<not> route_path ''/'' p"
    by cases (simp_all add: route_path_def mounted_at_def)
  then show "\<not> mounted_at ''/api-docs'' p" "\<not> route_path ''/ping'' p" "\<not> route_path ''/'' p"
    by simp_all
qed

lemma ping_path_facts:
  assumes "route_path ''/ping'' p"
  shows "\<not> mounted_at ''/api-docs'' p"
proof -
  from assms consider "toLowerCase p = ''/ping''" | "toLowerCase p = ''/ping/''"
    by (auto simp: route_path_def)
  then show ?thesis by cases (simp_all add: mounted_at_def)
qed

lemma is_get_not_options: "is_get rq \<Longrightarrow> req_method rq \<noteq> ''OPTIONS''"
  by (auto simp: is_get_def)

lemma serve_cached_video:
  assumes "is_video_route rq" "cors_ok E rq"
  shows "serve_cached E rq st =
           (case limiter_hit (req_time rq) (req_ip rq) (st_limiter st) of
              (hits, l') \<Rightarrow>
                if max_requests < hits
                then (json_reply (429, limit_message) security_headers, st\<lparr>st_limiter := l'\<rparr>)
                else
                  (case api_video_cached E (req_time rq) (query_url rq) (query_platform rq)
                          (st_cache st) of
                     (r, c', calls) \<Rightarrow>
                       (json_reply r security_headers, st\<lparr>st_cache := c', st_limiter := l'\<rparr>)))"
proof -
  from assms(1) have g: "is_get rq" and p: "route_path ''/api/video'' (req_path rq)"
    by (simp_all add: is_video_route_def)
  show ?thesis
    using assms is_get_not_options[OF g] video_path_facts[OF p]
    by (simp add: serve_cached_eq)
qed

lemma serve_cached_other:
  assumes "\<not> (is_video_route rq \<and> cors_ok E rq)"
  shows "snd (serve_cached E rq st) = st"
  using assms by (simp add: serve_cached_eq)

lemma serve_cached_cache:
  assumes "serve_cached E rq st = (resp, st')"
  shows "st_cache st' = st_cache st \<or>
         (res_status resp = 200 \<and>
          (\<exists>u platform v. query_url rq = Some u \<and> query_platform rq = Some platform
             \<and> adapter_succeeded E (req_time rq) u platform
             \<and> res_body resp = JsonBody v \<and> is_success v
             \<and> st_cache st' = cache_set (req_time rq) (st_cache st) (cacheKey u) v))"
proof (cases "is_video_route rq \<and> cors_ok E rq")
  case False
  from serve_cached_other[OF this, of st] assms show ?thesis by simp
next
  case True
  then have route: "is_video_route rq" "cors_ok E rq" by simp_all
  obtain hits l' where lh: "limiter_hit (req_time rq) (req_ip rq) (st_limiter st) = (hits, l')"
    by (cases "limiter_hit (req_time rq) (req_ip rq) (st_limiter st)")
  obtain r c' calls where av:
    "api_video_cached E (req_time rq) (query_url rq) (query_platform rq) (st_cache st)
       = (r, c', calls)"
    by (cases "api_video_cached E (req_time rq) (query_url rq) (query_platform rq) (st_cache st)")
  show ?thesis
  proof (cases "max_requests < hits")
    case True
    with assms lh show ?thesis
      by (simp add: serve_cached_video[OF route]) auto
  next
    case False
    with assms lh av
    have "resp = json_reply r security_headers" "st_cache st' = c'"
      by (auto simp: serve_cached_video[OF route])
    with api_video_cached_cases[OF av] show ?thesis
      by (auto simp: json_reply_def)
  qed
qed

lemma serve_cached_all_success:
  assumes "cache_all_success (st_cache st)"
  shows "cache_all_success (st_cache (snd (serve_cached E rq st)))"
proof -
  obtain resp st' where s: "serve_cached E rq st = (resp, st')" by (cases "serve_cached E rq st")
  from serve_cached_cache[OF s] assms s show ?thesis
    by (auto simp: cache_all_success_set)
qed

lemma run_cached_Cons:
  "run_cached E (rq # rqs) st = run_cached E rqs (snd (serve_cached E rq st))"
  by (simp add: run_cached_def)

lemma run_cached_all_success:
  "cache_all_success (st_cache st) \<Longrightarrow> cache_all_success (st_cache (run_cached E rqs st))"
proof (induction rqs arbitrary: st)
  case Nil
  then show ?case by (simp add: run_cached_def)
next
  case (Cons rq rqs)
  from Cons.IH[OF serve_cached_all_success[OF Cons.prems, of E rq]]
  show ?case by (simp add: run_cached_Cons)
qed

subsection \<open>The rate limiter inside the chain\<close>

lemma serve_cached_limiter_step:
  assumes "st_limiter st a = Some (n, start)" and "req_time rq < start + windowMs"
  shows "st_limiter (snd (serve_cached E rq st)) a
           = Some (if counted E a rq then Suc n else n, start)"
proof (cases "is_video_route rq \<and> cors_ok E rq")
  case False
  with serve_cached_other[OF False, of st] assms show ?thesis
    by (auto simp: counted_def)
next
  case True
  then have route: "is_video_route rq" "cors_ok E rq" by auto
  show ?thesis
    using assms
    by (auto simp: serve_cached_video[OF route] counted_def route limiter_hit_def
        split: prod.splits option.splits if_splits)
qed

lemma run_cached_limiter:
  assumes "st_limiter st a = Some (n, start)"
    and "\<forall>rq \<in> set rqs. req_time rq < start + windowMs"
  shows "st_limiter (run_cached E rqs st) a
           = Some (n + length (filter (counted E a) rqs), start)"
  using assms
proof (induction rqs arbitrary: st n)
  case Nil
  then show ?case by (simp add: run_cached_def)
next
  case (Cons rq rqs)
  have step: "st_limiter (snd (serve_cached E rq st)) a
      = Some (if counted E a rq then Suc n else n, start)"
    using Cons.prems by (simp add: serve_cached_limiter_step)
  have rest: "\<forall>rq \<in> set rqs. req_time rq < start + windowMs"
    using Cons.prems by simp
  show ?case
    unfolding run_cached_Cons using Cons.IH[OF step rest] by simp
qed

lemma serve_cached_denied:
  assumes "st_limiter st a = Some (n, start)" and "req_time rq < start + windowMs"
    and "counted E a rq" and "max_requests \<le> n"
  shows "fst (serve_cached E rq st) = json_reply (429, limit_message) security_headers"
proof -
  from assms(3) have route: "is_video_route rq" "cors_ok E rq" and ip: "req_ip rq = a"
    by (auto simp: counted_def)
  show ?thesis
    using assms(1,2,4) ip
    by (simp add: serve_cached_video[OF route] limiter_hit_def)
qed

lemma limiter_hit_other_address:
  assumes "b \<noteq> a"
  shows "fst (limiter_hit t b (l(a := x))) = fst (limiter_hit t b l)"
  using assms by (simp add: limiter_hit_def split: option.splits prod.splits)

lemma serve_cached_limiter_other_address:
  assumes "req_ip rq \<noteq> a"
  shows "fst (serve_cached E rq (st\<lparr>st_limiter := (st_limiter st)(a := x)\<rparr>))
           = fst (serve_cached E rq st)"
proof (cases "is_video_route rq \<and> cors_ok E rq")
  case False
  then show ?thesis by (simp add: serve_cached_eq)
next
  case True
  then have route: "is_video_route rq" "cors_ok E rq" by auto
  obtain h1 l1 where a: "limiter_hit (req_time rq) (req_ip rq) (st_limiter st) = (h1, l1)"
    by (cases "limiter_hit (req_time rq) (req_ip rq) (st_limiter st)")
  obtain h2 l2 where b:
    "limiter_hit (req_time rq) (req_ip rq) ((st_limiter st)(a := x)) = (h2, l2)"
    by (cases "limiter_hit (req_time rq) (req_ip rq) ((st_limiter st)(a := x))")
  from limiter_hit_other_address[OF assms, of "req_time rq" "st_limiter st" x] a b
  have "h2 = h1" by simp
  with a b show ?thesis
    by (simp add: serve_cached_video[OF route] split: prod.splits)
qed

lemma serve_cached_limiter_other_route:
  assumes "\<not> is_video_route rq"
  shows "fst (serve_cached E rq (st\<lparr>st_limiter := l\<rparr>)) = fst (serve_cached E rq st)"
  using assms by (simp add: serve_cached_eq)

lemma serve_cached_ping:
  assumes "is_get rq" and "route_path ''/ping'' (req_path rq)" and "cors_ok E rq"
  shows "fst (serve_cached E rq st)
           = \<lparr>res_status = 200, res_headers = security_headers, res_body = TextBody ''pong''\<rparr>"
  using assms is_get_not_options[OF assms(1)] ping_path_facts[OF assms(2)]
  by (simp add: serve_cached_eq)

subsection \<open>Responses that leave before the security layer\<close>

lemma cached_cors_rejection_headers:
  assumes "\<not> cors_ok E rq"
  shows "res_headers (fst (serve_cached E rq st)) = [(''Content-Type'', ''application/json'')]"
  using assms by (simp add: serve_cached_eq json_reply_def)

lemma cached_preflight_headers:
  assumes "cors_ok E rq" and "req_method rq = ''OPTIONS''"
  shows "res_headers (fst (serve_cached E rq st)) = []"
  using assms by (simp add: serve_cached_eq)

section \<open>Claims\<close>

text \<open>
  C1. The claim: for every valid YouTube URL with a resolvable video the response of
  \<^verbatim>\<open>/api/video\<close> carries a \<^verbatim>\<open>download_url\<close> that is a non-empty absolute URL string, in
  both variants. The cached variant does not do that: its \<open>getYouTubeDownloadUrl\<close>
  returns the stream object of \<^verbatim>\<open>ytdl(url, ...)\<close>, not \<^verbatim>\<open>format.url\<close>. Whenever the
  cached handler answers a YouTube request 200 after a cache miss, the \<^verbatim>\<open>download_url\<close>
  field of the body is that stream object and never a string.
\<close>

theorem cached_download_url_is_stream:
  assumes "api_video_cached E t (Some u) (Some ''youtube'') c = ((200, v), c', calls)"
    and "cache_get t c (cacheKey u) = None"
  shows "(\<exists>f. field v ''download_url'' = Some (JStream u f))
         \<and> (\<forall>s. field v ''download_url'' \<noteq> Some (JStr s))"
proof -
  from assms have "youtube_case_cached E t u c = ((200, v), c', calls)"
    by (auto simp: api_video_cached_def platform_switch_cached_def split: if_splits)
  from youtube_case_cached_cases[OF this]
  obtain info f where "v = youtube_videoInfo info (hd (thumbnails info)) (JStream u f)"
    by auto
  then show ?thesis by (simp add: youtube_videoInfo_def field_def)
qed

text \<open>
  On the example video the cached variant answers with the stream object, the simple
  variant with the URL of the chosen format.
\<close>

theorem cached_download_url_is_stream_witness:
  "field (snd (fst (api_video_cached example_env 0 (Some example_youtube_url) (Some ''youtube'')
       Map.empty))) ''download_url''
     = Some (JStream example_youtube_url example_format)
   \<and> field (snd (fst (api_video_simple example_env 0 (Some example_youtube_url)))) ''download_url''
     = Some (JStr ''https://rr1.googlevideo.com/videoplayback?id=1'')"
proof -
  have run: "api_video_cached example_env 0 (Some example_youtube_url) (Some ''youtube'') Map.empty
      = ((200, youtube_videoInfo example_info ''https://i.ytimg.com/vi/dQw4w9WgXcQ/default.jpg''
                 (JStream example_youtube_url example_format)),
         cache_set 0 Map.empty (cacheKey example_youtube_url)
           (youtube_videoInfo example_info ''https://i.ytimg.com/vi/dQw4w9WgXcQ/default.jpg''
                 (JStream example_youtube_url example_format)),
         [GetInfo example_youtube_url, YtdlStream example_youtube_url])"
    by (simp add: cached_handler_defs cache_get_def
        example_env_def example_info_def example_youtube_url_def)
  have miss: "cache_get 0 Map.empty (cacheKey example_youtube_url) = None"
    by (simp add: cache_get_def)
  have hostname: "detectPlatform (url_hostname example_env) example_youtube_url = Some ''youtube''"
    by (simp add: example_defs detectPlatform_def toLowerCase_def toLowerChar_def)
  have simple: "fst (api_video_simple example_env 0 (Some example_youtube_url))
      = (200, youtube_videoInfo example_info ''https://i.ytimg.com/vi/dQw4w9WgXcQ/default.jpg''
                 (JStr ''https://rr1.googlevideo.com/videoplayback?id=1''))"
    using hostname
    by (simp add: simple_handler_defs example_env_def example_info_def
        example_youtube_url_def example_format_def)
  from cached_download_url_is_stream[OF run miss]
  obtain f where f: "field (youtube_videoInfo example_info
      ''https://i.ytimg.com/vi/dQw4w9WgXcQ/default.jpg''
      (JStream example_youtube_url example_format)) ''download_url''
        = Some (JStream example_youtube_url f)"
    by blast
  then have "f = example_format" by (simp add: youtube_videoInfo_def field_def)
  with f run simple show ?thesis by (simp add: youtube_videoInfo_def field_def)
qed

text \<open>
  C2. The claim: an upstream failure on the YouTube path whose message contains
  \<^verbatim>\<open>Sign in to confirm\<close> is answered with status 403 and the age-verification message.
  The handlers do not do that. When \<^verbatim>\<open>getInfo\<close> fails with such a message \<open>m\<close> on a
  valid URL, the cached handler's inner \<^verbatim>\<open>catch\<close> answers 400 with
  \<^verbatim>\<open>'Unable to process YouTube video. ' + m\<close>, and the simple handler's \<^verbatim>\<open>catch\<close>
  answers 500 with \<open>m\<close>. The error middleware of the cached variant, which holds the
  403 branch, maps the same message to 403, but the handler never hands the error to it.
\<close>

theorem age_restricted_failure_is_generic:
  assumes "u \<noteq> []" and "validateURL E u" and "getInfo E t u = Inl m"
    and "str_includes m ''Sign in to confirm''"
  shows "(cache_get t c (cacheKey u) = None \<longrightarrow>
            api_video_cached E t (Some u) (Some ''youtube'') c
              = ((400, err_body (''Unable to process YouTube video. '' @ m)), c, [GetInfo u]))
         \<and> (detectPlatform (url_hostname E) u = Some ''youtube'' \<longrightarrow>
            api_video_simple E t (Some u) = ((500, err_body m), [GetInfo u]))
         \<and> error_handler_cached E m rq hs st
             = Sent (json_reply (403,
                 err_body ''This video requires age verification. Please try another video.'')
                 (setHeader ''Content-Type'' ''application/json'' hs)) st"
  using assms
  by (simp add: api_video_cached_def platform_switch_cached_def youtube_case_cached_def
      youtube_try_cached_def api_video_simple_def video_try_simple_def youtube_case_simple_def
      error_handler_cached_def)

text \<open>
  The example video that the upstream refuses: 400 in the cached variant, 500 in the
  simple one, 403 only from the error middleware.
\<close>

theorem age_restricted_failure_is_generic_witness:
  "api_video_cached example_env 0 (Some example_restricted_url) (Some ''youtube'') Map.empty
     = ((400, err_body ''Unable to process YouTube video. Sign in to confirm your age''),
        Map.empty, [GetInfo example_restricted_url])
   \<and> api_video_simple example_env 0 (Some example_restricted_url)
     = ((500, err_body ''Sign in to confirm your age''), [GetInfo example_restricted_url])
   \<and> error_handler_cached example_env ''Sign in to confirm your age''
        (example_request example_restricted_url ''youtube'' ''10.0.0.1'' 0) [] example_state
     = Sent (json_reply (403,
           err_body ''This video requires age verification. Please try another video.'')
           (setHeader ''Content-Type'' ''application/json'' [])) example_state"
proof -
  have h: "example_restricted_url \<noteq> []" "validateURL example_env example_restricted_url"
    "getInfo example_env 0 example_restricted_url = Inl ''Sign in to confirm your age''"
    "str_includes ''Sign in to confirm your age'' ''Sign in to confirm''"
    by (simp_all add: example_defs)
  have miss: "cache_get 0 Map.empty (cacheKey example_restricted_url) = None"
    by (simp add: cache_get_def)
  have hostname:
    "detectPlatform (url_hostname example_env) example_restricted_url = Some ''youtube''"
    by (simp add: example_defs detectPlatform_def toLowerCase_def toLowerChar_def)
  from age_restricted_failure_is_generic[OF h, where c = Map.empty
      and rq = "example_request example_restricted_url ''youtube'' ''10.0.0.1'' 0"
      and hs = "[]" and st = example_state] miss hostname
  show ?thesis by simp
qed

text \<open>
  C3. In the cached variant a cache entry is written only after the matching adapter
  succeeded. For every request to the application: a response whose status is not 200
  leaves the cache unchanged; when the cache changes, the request named a URL and a
  platform whose adapter succeeded, the response body is a success response, and the
  change is exactly the insertion of that body under the key of the URL; and a handler
  reply that is not a success response (missing parameters, unsupported platform,
  invalid YouTube URL, empty Instagram list, adapter exception) leaves the cache
  unchanged. As an invariant over any sequence of requests: if every cached value is a
  success response, that is still so afterwards.
\<close>

theorem cache_written_only_after_success:
  "(res_status (fst (serve_cached E rq st)) \<noteq> 200 \<longrightarrow>
      st_cache (snd (serve_cached E rq st)) = st_cache st)
   \<and> (st_cache (snd (serve_cached E rq st)) \<noteq> st_cache st \<longrightarrow>
        (\<exists>u platform v. query_url rq = Some u \<and> query_platform rq = Some platform
           \<and> adapter_succeeded E (req_time rq) u platform
           \<and> res_body (fst (serve_cached E rq st)) = JsonBody v \<and> is_success v
           \<and> st_cache (snd (serve_cached E rq st))
               = cache_set (req_time rq) (st_cache st) (cacheKey u) v))
   \<and> (\<not> is_success (snd (fst (api_video_cached E t q_url q_platform c))) \<longrightarrow>
        fst (snd (api_video_cached E t q_url q_platform c)) = c)
   \<and> (cache_all_success (st_cache st) \<longrightarrow> cache_all_success (st_cache (run_cached E rqs st)))"
proof -
  obtain resp st' where s: "serve_cached E rq st = (resp, st')" by (cases "serve_cached E rq st")
  obtain r c' calls where av: "api_video_cached E t q_url q_platform c = (r, c', calls)"
    by (cases "api_video_cached E t q_url q_platform c")
  from api_video_cached_cases[OF av] av
  have handler: "\<not> is_success (snd (fst (api_video_cached E t q_url q_platform c))) \<longrightarrow>
        fst (snd (api_video_cached E t q_url q_platform c)) = c"
    by auto
  from serve_cached_cache[OF s] s handler run_cached_all_success[of st E rqs]
  show ?thesis by auto
qed

text \<open>
  A request with an unsupported platform and a failing YouTube request leave the cache
  alone; after three requests, two of them successful, every cached value is a success
  response.
\<close>

theorem cache_written_only_after_success_witness:
  "st_cache (snd (serve_cached example_env
       (example_request example_other_url ''tiktok'' ''10.0.0.1'' 0) example_state)) = Map.empty
   \<and> fst (snd (api_video_cached example_env 0 (Some example_restricted_url) (Some ''youtube'')
       example_cache)) = example_cache
   \<and> cache_all_success (st_cache (run_cached example_env
       [example_request example_instagram_url ''instagram'' ''10.0.0.1'' 0,
        example_request example_youtube_url ''youtube'' ''10.0.0.1'' 5,
        example_request example_restricted_url ''youtube'' ''10.0.0.2'' 7] example_state))"
proof -
  let ?rq = "example_request example_other_url ''tiktok'' ''10.0.0.1'' 0"
  have route: "is_video_route ?rq" "cors_ok example_env ?rq"
    by (simp_all add: example_request_def is_video_route_def is_get_def route_path_def
        toLowerCase_def toLowerChar_def cors_ok_def)
  have status: "res_status (fst (serve_cached example_env ?rq example_state)) \<noteq> 200"
    by (subst serve_cached_video[OF route])
      (simp add: limiter_hit_def max_requests_def example_state_def example_request_def
        cached_handler_defs cache_get_def json_reply_def example_other_url_def)
  have fail: "\<not> is_success (snd (fst (api_video_cached example_env 0
       (Some example_restricted_url) (Some ''youtube'') example_cache)))"
    by (simp add: cached_handler_defs cache_get_def example_defs example_cache_def cacheKey_def
        err_body_def is_success_def field_def)
  have empty: "cache_all_success (st_cache example_state)"
    by (simp add: cache_all_success_def example_state_def)
  from cache_written_only_after_success[of example_env ?rq example_state 0
      "Some example_restricted_url" "Some ''youtube''" example_cache
      "[example_request example_instagram_url ''instagram'' ''10.0.0.1'' 0,
        example_request example_youtube_url ''youtube'' ''10.0.0.1'' 5,
        example_request example_restricted_url ''youtube'' ''10.0.0.2'' 7]"]
    status fail empty
  show ?thesis by (simp add: example_state_def)
qed

text \<open>
  C4. The claim: in the cached variant a second request for a URL whose first request
  succeeded, made within the 3600 seconds of the entry's life, returns a byte-identical
  body and does not call the adapter again; the entry is keyed by the request URL and
  expires 3600 seconds after insertion. The code does all of that except for the body
  of a YouTube response. After a successful first request (a cache miss at time \<open>t1\<close>
  with body \<open>v\<close>), the cache holds a copy of \<open>v\<close> under the key made from the URL,
  expiring after 3600 seconds; every request for the URL up to then, whatever its
  platform value and whatever the adapters would answer by then, is answered 200 with a
  copy of \<open>v\<close>, calls no adapter and leaves the cache as it is; afterwards the entry is
  no longer found. For an Instagram response the copy equals \<open>v\<close>. For a YouTube
  response it does not: \<open>v\<close> holds the live stream object in \<^verbatim>\<open>download_url\<close>, the
  copy holds a copy of the stream, and the two bodies differ.
\<close>

theorem second_request_body_is_cache_copy:
  assumes first: "api_video_cached E t1 (Some u) (Some p1) c = ((200, v), c1, calls1)"
    and miss: "cache_get t1 c (cacheKey u) = None"
    and p2: "p2 \<noteq> []"
  shows "c1 (cacheKey u) = Some (clone v, t1 + 3600 * 1000)
     \<and> (\<forall>t2. t2 \<le> t1 + 3600 * 1000 \<longrightarrow>
           api_video_cached E' t2 (Some u) (Some p2) c1 = ((200, clone v), c1, []))
     \<and> (\<forall>t2. t1 + 3600 * 1000 < t2 \<longrightarrow> cache_get t2 c1 (cacheKey u) = None)
     \<and> (p1 = ''instagram'' \<longrightarrow> clone v = v)
     \<and> (p1 = ''youtube'' \<longrightarrow> clone v \<noteq> v
           \<and> (\<exists>f. field v ''download_url'' = Some (JStream u f)
                 \<and> field (clone v) ''download_url'' = Some (JStreamClone u f)))"
proof -
  from first have ne: "u \<noteq> []" "p1 \<noteq> []"
    by (auto simp: api_video_cached_def split: if_splits)
  with first miss have switch: "platform_switch_cached E t1 u p1 c = ((200, v), c1, calls1)"
    by (simp add: api_video_cached_def)
  from platform_switch_cached_cases[OF switch]
  have c1: "c1 = cache_set t1 c (cacheKey u) v" and v: "is_success v" by auto
  have entry: "c1 (cacheKey u) = Some (clone v, t1 + 3600 * 1000)"
    by (simp add: c1 cache_set_def stdTTL_def)
  have hit: "cache_get t2 c1 (cacheKey u) = Some (clone v)" if "t2 \<le> t1 + 3600 * 1000" for t2
    using that by (simp add: cache_get_def entry clone_idem)
  have gone: "cache_get t2 c1 (cacheKey u) = None" if "t1 + 3600 * 1000 < t2" for t2
    using that by (simp add: cache_get_def entry)
  have served: "api_video_cached E' t2 (Some u) (Some p2) c1 = ((200, clone v), c1, [])"
    if "t2 \<le> t1 + 3600 * 1000" for t2
    using api_video_cached_hit[OF ne(1) p2 hit[OF that]
        is_success_truthy[OF is_success_clone[OF v]]] .
  have instagram: "clone v = v" if "p1 = ''instagram''"
  proof -
    from switch that have "instagram_case_cached E t1 u c = ((200, v), c1, calls1)"
      by (simp add: platform_switch_cached_def)
    from instagram_case_cached_cases[OF this]
    obtain ig where "v = instagram_videoInfo ig (hd (url_list ig))" by auto
    then show ?thesis by (simp add: clone_instagram_videoInfo)
  qed
  have youtube: "clone v \<noteq> v \<and> (\<exists>f. field v ''download_url'' = Some (JStream u f)
      \<and> field (clone v) ''download_url'' = Some (JStreamClone u f))" if "p1 = ''youtube''"
  proof -
    from switch that have "youtube_case_cached E t1 u c = ((200, v), c1, calls1)"
      by (simp add: platform_switch_cached_def)
    from youtube_case_cached_cases[OF this]
    obtain info f where "v = youtube_videoInfo info (hd (thumbnails info)) (JStream u f)"
      by auto
    then show ?thesis by (auto simp: youtube_videoInfo_def field_def)
  qed
  from entry served gone instagram youtube show ?thesis by blast
qed

text \<open>
  The example video: the first body holds the live stream, the second body, served from
  the cache at the last millisecond of the entry's life, holds a copy of it, and the two
  differ. The example Instagram post: the second body equals the first, though the
  resolver fails by then.
\<close>

theorem second_request_body_is_cache_copy_witness:
  "fst (api_video_cached example_env 0 (Some example_youtube_url) (Some ''youtube'') Map.empty)
     = (200, youtube_videoInfo example_info ''https://i.ytimg.com/vi/dQw4w9WgXcQ/default.jpg''
               (JStream example_youtube_url example_format))
   \<and> fst (api_video_cached example_env 3600000 (Some example_youtube_url) (Some ''youtube'')
        (cache_set 0 Map.empty (cacheKey example_youtube_url)
           (youtube_videoInfo example_info ''https://i.ytimg.com/vi/dQw4w9WgXcQ/default.jpg''
               (JStream example_youtube_url example_format))))
     = (200, youtube_videoInfo example_info ''https://i.ytimg.com/vi/dQw4w9WgXcQ/default.jpg''
               (JStreamClone example_youtube_url example_format))
   \<and> youtube_videoInfo example_info ''https://i.ytimg.com/vi/dQw4w9WgXcQ/default.jpg''
        (JStreamClone example_youtube_url example_format)
     \<noteq> youtube_videoInfo example_info ''https://i.ytimg.com/vi/dQw4w9WgXcQ/default.jpg''
        (JStream example_youtube_url example_format)
   \<and> fst (api_video_cached example_env 0 (Some example_instagram_url) (Some ''instagram'')
        Map.empty)
     = (200, instagram_videoInfo example_ig ''https://cdn.example.net/a.mp4'')
   \<and> api_video_cached (example_env\<lparr>instagramGetUrl := (\<lambda>t u. Inl ''upstream is down'')\<rparr>)
        3600000 (Some example_instagram_url) (Some ''instagram'')
        (cache_set 0 Map.empty (cacheKey example_instagram_url)
           (instagram_videoInfo example_ig ''https://cdn.example.net/a.mp4''))
     = ((200, instagram_videoInfo example_ig ''https://cdn.example.net/a.mp4''),
        cache_set 0 Map.empty (cacheKey example_instagram_url)
           (instagram_videoInfo example_ig ''https://cdn.example.net/a.mp4''), [])
   \<and> cache_get 3600001
        (cache_set 0 Map.empty (cacheKey example_instagram_url)
           (instagram_videoInfo example_ig ''https://cdn.example.net/a.mp4''))
        (cacheKey example_instagram_url) = None"
proof -
  let ?yt = "youtube_videoInfo example_info ''https://i.ytimg.com/vi/dQw4w9WgXcQ/default.jpg''
               (JStream example_youtube_url example_format)"
  let ?ig = "instagram_videoInfo example_ig ''https://cdn.example.net/a.mp4''"
  have first_yt: "api_video_cached example_env 0 (Some example_youtube_url) (Some ''youtube'')
      Map.empty
      = ((200, ?yt), cache_set 0 Map.empty (cacheKey example_youtube_url) ?yt,
         [GetInfo example_youtube_url, YtdlStream example_youtube_url])"
    by (simp add: cached_handler_defs cache_get_def
        example_env_def example_info_def example_youtube_url_def)
  have miss_yt: "cache_get 0 Map.empty (cacheKey example_youtube_url) = None"
    by (simp add: cache_get_def)
  have first_ig: "api_video_cached example_env 0 (Some example_instagram_url) (Some ''instagram'')
      Map.empty
      = ((200, ?ig), cache_set 0 Map.empty (cacheKey example_instagram_url) ?ig,
         [InstagramGetUrl example_instagram_url])"
    by (simp add: cached_handler_defs cache_get_def example_env_def example_instagram_url_def
        example_ig_def Let_def)
  have miss_ig: "cache_get 0 Map.empty (cacheKey example_instagram_url) = None"
    by (simp add: cache_get_def)
  have p2: "''youtube'' \<noteq> []" "''instagram'' \<noteq> []" by simp_all
  have yt: "fst (api_video_cached example_env 3600000 (Some example_youtube_url)
        (Some ''youtube'') (cache_set 0 Map.empty (cacheKey example_youtube_url) ?yt))
      = (200, clone ?yt)"
    and differ: "clone ?yt \<noteq> ?yt"
    using second_request_body_is_cache_copy[OF first_yt miss_yt p2(1), of example_env]
    by simp_all
  have ig: "api_video_cached (example_env\<lparr>instagramGetUrl := (\<lambda>t u. Inl ''upstream is down'')\<rparr>)
        3600000 (Some example_instagram_url) (Some ''instagram'')
        (cache_set 0 Map.empty (cacheKey example_instagram_url) ?ig)
      = ((200, clone ?ig), cache_set 0 Map.empty (cacheKey example_instagram_url) ?ig, [])"
    and gone: "cache_get 3600001 (cache_set 0 Map.empty (cacheKey example_instagram_url) ?ig)
        (cacheKey example_instagram_url) = None"
    using second_request_body_is_cache_copy[OF first_ig miss_ig p2(2),
        of "example_env\<lparr>instagramGetUrl := (\<lambda>t u. Inl ''upstream is down'')\<rparr>"]
    by simp_all
  from first_yt first_ig yt differ ig gone show ?thesis
    by (simp add: clone_youtube_videoInfo clone_instagram_videoInfo)
qed

text \<open>
  C5. An Instagram request whose resolver returned \<open>ig\<close>: when \<open>url_list ig\<close> is empty
  the reply is status 400 with \<^verbatim>\<open>success: false\<close> and the error
  \<^verbatim>\<open>No downloadable URL found\<close>; otherwise it is status 200 with \<^verbatim>\<open>success: true\<close>,
  \<^verbatim>\<open>download_url\<close> the first element of the list and \<^verbatim>\<open>type\<close> the resolver's type tag.
  This holds in the simple variant (the URL is detected as Instagram) and in the cached
  variant (the platform parameter is \<^verbatim>\<open>instagram\<close> and the URL is not in the cache).
\<close>

theorem instagram_first_url_or_400:
  assumes "u \<noteq> []" and "instagramGetUrl E t u = Inr ig"
  shows "(detectPlatform (url_hostname E) u = Some ''instagram'' \<longrightarrow>
            fst (api_video_simple E t (Some u)) =
              (if url_list ig = [] then (400, err_body ''No downloadable URL found'')
               else (200, JObj [(''success'', JBool True), (''platform'', JStr ''instagram''),
                                (''download_url'', JStr (hd (url_list ig))),
                                (''type'', JStr (ig_type ig))])))
         \<and> (cache_get t c (cacheKey u) = None \<longrightarrow>
            fst (api_video_cached E t (Some u) (Some ''instagram'') c) =
              (if url_list ig = [] then (400, err_body ''No downloadable URL found'')
               else (200, JObj [(''success'', JBool True), (''platform'', JStr ''instagram''),
                                (''download_url'', JStr (hd (url_list ig))),
                                (''type'', JStr (ig_type ig))])))"
  using assms
  by (auto simp: api_video_simple_def video_try_simple_def instagram_case_simple_def
      api_video_cached_def platform_switch_cached_def instagram_case_cached_def
      instagram_videoInfo_def Let_def split: list.splits)

text \<open>The example post has two media links; both variants return the first.\<close>

theorem instagram_first_url_or_400_witness:
  "fst (api_video_simple example_env 0 (Some example_instagram_url)) =
     (200, JObj [(''success'', JBool True), (''platform'', JStr ''instagram''),
                 (''download_url'', JStr ''https://cdn.example.net/a.mp4''),
                 (''type'', JStr ''video'')])
   \<and> fst (api_video_cached example_env 0 (Some example_instagram_url) (Some ''instagram'')
        Map.empty) =
     (200, JObj [(''success'', JBool True), (''platform'', JStr ''instagram''),
                 (''download_url'', JStr ''https://cdn.example.net/a.mp4''),
                 (''type'', JStr ''video'')])"
proof -
  have h: "example_instagram_url \<noteq> []"
    "instagramGetUrl example_env 0 example_instagram_url = Inr example_ig"
    by (simp_all add: example_defs)
  have miss: "cache_get 0 Map.empty (cacheKey example_instagram_url) = None"
    by (simp add: cache_get_def)
  have hostname:
    "detectPlatform (url_hostname example_env) example_instagram_url = Some ''instagram''"
    by (simp add: example_defs detectPlatform_def toLowerCase_def toLowerChar_def)
  from instagram_first_url_or_400[OF h, of Map.empty] miss hostname
  show ?thesis by (simp add: example_ig_def)
qed

text \<open>
  C6, as amended. In the simple variant, where the platform is detected from the URL, a
  non-empty URL whose host is neither a YouTube nor an Instagram domain is answered
  with status 400, \<^verbatim>\<open>success: false\<close> and the unsupported-platform error. In the cached
  variant, where the platform is a query parameter, the host of the URL is not looked
  at: on a cache miss the reply is the unsupported-platform error exactly when the
  platform parameter is neither \<^verbatim>\<open>youtube\<close> nor \<^verbatim>\<open>instagram\<close>, and then it is status 400
  with the error \<^verbatim>\<open>Unsupported platform\<close>.
\<close>

theorem unsupported_platform_by_variant:
  assumes "u \<noteq> []"
  shows "(detectPlatform (url_hostname E) u = None \<longrightarrow>
            api_video_simple E t (Some u) =
              ((400, err_body
                 ''Unsupported platform. Please provide a valid YouTube or Instagram URL''), [])
            \<and> unsupported_platform_reply (fst (api_video_simple E t (Some u))))
         \<and> (platform \<noteq> [] \<and> cache_get t c (cacheKey u) = None \<longrightarrow>
              (unsupported_platform_reply (fst (api_video_cached E t (Some u) (Some platform) c))
                 \<longleftrightarrow> platform \<noteq> ''youtube'' \<and> platform \<noteq> ''instagram'')
              \<and> (platform \<noteq> ''youtube'' \<and> platform \<noteq> ''instagram'' \<longrightarrow>
                   api_video_cached E t (Some u) (Some platform) c =
                     ((400, err_body ''Unsupported platform''), c, [])))"
proof -
  have simple: "detectPlatform (url_hostname E) u = None \<Longrightarrow>
      api_video_simple E t (Some u) =
        ((400, err_body
           ''Unsupported platform. Please provide a valid YouTube or Instagram URL''), [])"
    using assms by (simp add: api_video_simple_def video_try_simple_def)
  have simple_kind: "unsupported_platform_reply
      (400, err_body ''Unsupported platform. Please provide a valid YouTube or Instagram URL'')"
    by (simp add: unsupported_platform_reply_def err_body_def field_def)
  have cached: "platform \<noteq> [] \<Longrightarrow> cache_get t c (cacheKey u) = None \<Longrightarrow>
      api_video_cached E t (Some u) (Some platform) c = platform_switch_cached E t u platform c"
    using assms by (simp add: api_video_cached_def)
  have other: "platform \<noteq> ''youtube'' \<Longrightarrow> platform \<noteq> ''instagram'' \<Longrightarrow>
      platform_switch_cached E t u platform c = ((400, err_body ''Unsupported platform''), c, [])"
    by (simp add: platform_switch_cached_def)
  show ?thesis
    using simple simple_kind cached other switch_unsupported_iff[of E t u platform c]
    by auto
qed

text \<open>
  The example URL of neither platform: unsupported in the simple variant, unsupported in
  the cached variant under the platform value \<^verbatim>\<open>tiktok\<close>, but not under \<^verbatim>\<open>youtube\<close>.
\<close>

theorem unsupported_platform_by_variant_witness:
  "api_video_simple example_env 0 (Some example_other_url) =
     ((400, err_body ''Unsupported platform. Please provide a valid YouTube or Instagram URL''), [])
   \<and> api_video_cached example_env 0 (Some example_other_url) (Some ''tiktok'') Map.empty =
     ((400, err_body ''Unsupported platform''), Map.empty, [])
   \<and> \<not> unsupported_platform_reply
         (fst (api_video_cached example_env 0 (Some example_other_url) (Some ''youtube'')
            Map.empty))"
proof -
  have ne: "example_other_url \<noteq> []" by (simp add: example_defs)
  have nd: "detectPlatform (url_hostname example_env) example_other_url = None"
    by (simp add: example_defs detectPlatform_def toLowerCase_def toLowerChar_def)
  have miss: "cache_get 0 Map.empty (cacheKey example_other_url) = None"
    by (simp add: cache_get_def)
  from unsupported_platform_by_variant[OF ne, of example_env 0 "''tiktok''" Map.empty]
    unsupported_platform_by_variant[OF ne, of example_env 0 "''youtube''" Map.empty]
    nd miss
  show ?thesis by simp
qed

text \<open>
  C6 as stated fails in the cached variant. The URL \<^verbatim>\<open>https://example.com/video\<close> has a
  host of neither platform, yet with the platform parameter \<^verbatim>\<open>youtube\<close> the reply is the
  error \<^verbatim>\<open>Invalid YouTube URL\<close>, and with \<^verbatim>\<open>instagram\<close> the resolver is called and its
  failure reported; neither reply is the unsupported-platform error.
\<close>

theorem explicit_platform_ignores_host_counterexample:
  "detectPlatform (url_hostname example_env) example_other_url = None
   \<and> fst (api_video_cached example_env 0 (Some example_other_url) (Some ''youtube'') Map.empty)
       = (400, err_body ''Invalid YouTube URL'')
   \<and> \<not> unsupported_platform_reply
         (fst (api_video_cached example_env 0 (Some example_other_url) (Some ''youtube'')
            Map.empty))
   \<and> fst (api_video_cached example_env 0 (Some example_other_url) (Some ''instagram'') Map.empty)
       = (400, err_body ''Unable to process Instagram video. Invalid Instagram URL'')
   \<and> \<not> unsupported_platform_reply
         (fst (api_video_cached example_env 0 (Some example_other_url) (Some ''instagram'')
            Map.empty))"
proof -
  have nd: "detectPlatform (url_hostname example_env) example_other_url = None"
    by (simp add: example_defs detectPlatform_def toLowerCase_def toLowerChar_def)
  have yt: "fst (api_video_cached example_env 0 (Some example_other_url) (Some ''youtube'')
         Map.empty)
       = (400, err_body ''Invalid YouTube URL'')"
    by (simp add: cached_handler_defs cache_get_def example_defs)
  have ig: "fst (api_video_cached example_env 0 (Some example_other_url) (Some ''instagram'')
         Map.empty)
       = (400, err_body ''Unable to process Instagram video. Invalid Instagram URL'')"
    by (simp add: cached_handler_defs cache_get_def example_defs)
  show ?thesis
    unfolding yt ig using nd
    by (simp add: unsupported_platform_reply_def err_body_def field_def)
qed

text \<open>
  C7. \<open>detectPlatform\<close> is a total function of its input: it returns
  \<^verbatim>\<open>'youtube'\<close> exactly when the input parses as a URL whose lower-cased host name
  contains \<^verbatim>\<open>youtube.com\<close> or \<^verbatim>\<open>youtu.be\<close>, \<^verbatim>\<open>'instagram'\<close> exactly when the host
  name contains \<^verbatim>\<open>instagram.com\<close> and neither YouTube string, and \<^verbatim>\<open>null\<close> for every
  other string, among them every string that does not parse; there is no fourth
  result and no exception. The URL parser \<open>hostname_of\<close> is arbitrary.
\<close>

theorem detectPlatform_total_and_by_hostname:
  "(detectPlatform hostname_of u = Some ''youtube'' \<longleftrightarrow>
      (\<exists>h. hostname_of u = Some h \<and>
         (spec_contains (toLowerCase h) ''youtube.com''
          \<or> spec_contains (toLowerCase h) ''youtu.be'')))
   \<and> (detectPlatform hostname_of u = Some ''instagram'' \<longleftrightarrow>
      (\<exists>h. hostname_of u = Some h \<and> spec_contains (toLowerCase h) ''instagram.com''
         \<and> \<not> spec_contains (toLowerCase h) ''youtube.com''
         \<and> \<not> spec_contains (toLowerCase h) ''youtu.be''))
   \<and> (detectPlatform hostname_of u = None \<longleftrightarrow>
      (hostname_of u = None \<or>
       (\<exists>h. hostname_of u = Some h \<and> \<not> spec_contains (toLowerCase h) ''youtube.com''
         \<and> \<not> spec_contains (toLowerCase h) ''youtu.be''
         \<and> \<not> spec_contains (toLowerCase h) ''instagram.com'')))
   \<and> detectPlatform hostname_of u \<in> {Some ''youtube'', Some ''instagram'', None}"
  by (cases "hostname_of u") (auto simp: detectPlatform_def Let_def includes_iff)

text \<open>The four kinds of input of the example environment.\<close>

theorem detectPlatform_witness:
  "detectPlatform (url_hostname example_env) example_youtube_url = Some ''youtube''
   \<and> detectPlatform (url_hostname example_env) example_instagram_url = Some ''instagram''
   \<and> detectPlatform (url_hostname example_env) example_other_url = None
   \<and> detectPlatform (url_hostname example_env) ''not a url'' = None"
proof -
  have "toLowerCase ''www.youtube.com'' = ''www.'' @ ''youtube.com'' @ []"
    by (simp add: toLowerCase_def toLowerChar_def)
  then have yt: "spec_contains (toLowerCase ''www.youtube.com'') ''youtube.com''"
    unfolding spec_contains_def by blast
  have ig: "str_includes (toLowerCase ''www.instagram.com'') ''instagram.com''"
    "\<not> str_includes (toLowerCase ''www.instagram.com'') ''youtube.com''"
    "\<not> str_includes (toLowerCase ''www.instagram.com'') ''youtu.be''"
    "\<not> str_includes (toLowerCase ''example.com'') ''youtube.com''"
    "\<not> str_includes (toLowerCase ''example.com'') ''youtu.be''"
    "\<not> str_includes (toLowerCase ''example.com'') ''instagram.com''"
    by (simp_all add: toLowerCase_def toLowerChar_def)
  show ?thesis
    using detectPlatform_total_and_by_hostname[of "url_hostname example_env" example_youtube_url]
      detectPlatform_total_and_by_hostname[of "url_hostname example_env" example_instagram_url]
      detectPlatform_total_and_by_hostname[of "url_hostname example_env" example_other_url]
      detectPlatform_total_and_by_hostname[of "url_hostname example_env" "''not a url''"]
      yt ig[unfolded includes_iff]
    by (simp add: example_defs)
qed

text \<open>
  C8. In the cached variant, let the window of client address \<open>a\<close> be open since
  \<open>start\<close> with \<open>n\<close> requests counted, and let any requests follow within the window, of
  any address and to any route, so that more than 100 requests of \<open>a\<close> to the video
  route are counted in the window. Then every further request of \<open>a\<close> to the video route
  within the window is denied with the fixed rate-limit error body. The counter of \<open>a\<close>
  has no influence on the response to a request from another address; the limiter has
  no influence on the response to a request to another route; and \<^verbatim>\<open>/ping\<close> answers
  \<^verbatim>\<open>pong\<close> whatever the state.
\<close>

theorem rate_limit_per_address:
  assumes "st_limiter st a = Some (n, start)"
    and "\<forall>rq \<in> set rqs. req_time rq < start + windowMs"
    and "max_requests < n + length (filter (counted E a) rqs)"
    and "counted E a rq" and "req_time rq < start + windowMs"
  shows "fst (serve_cached E rq (run_cached E rqs st))
           = json_reply (429, limit_message) security_headers
     \<and> res_body (fst (serve_cached E rq (run_cached E rqs st))) = JsonBody limit_message
     \<and> (\<forall>rq' st' x. req_ip rq' \<noteq> a \<longrightarrow>
           fst (serve_cached E rq' (st'\<lparr>st_limiter := (st_limiter st')(a := x)\<rparr>))
             = fst (serve_cached E rq' st'))
     \<and> (\<forall>rq' st' l. \<not> is_video_route rq' \<longrightarrow>
           fst (serve_cached E rq' (st'\<lparr>st_limiter := l\<rparr>)) = fst (serve_cached E rq' st'))
     \<and> (\<forall>rq' st'. is_get rq' \<and> route_path ''/ping'' (req_path rq') \<and> cors_ok E rq' \<longrightarrow>
           res_body (fst (serve_cached E rq' st')) = TextBody ''pong'')"
proof -
  have entry: "st_limiter (run_cached E rqs st) a
      = Some (n + length (filter (counted E a) rqs), start)"
    using assms(1,2) by (rule run_cached_limiter)
  have enough: "max_requests \<le> n + length (filter (counted E a) rqs)"
    using assms(3) by simp
  have denied: "fst (serve_cached E rq (run_cached E rqs st))
      = json_reply (429, limit_message) security_headers"
    using entry assms(5,4) enough by (rule serve_cached_denied)
  then have body:
    "res_body (fst (serve_cached E rq (run_cached E rqs st))) = JsonBody limit_message"
    by (simp add: json_reply_def)
  show ?thesis
    using denied body
    by (simp add: serve_cached_limiter_other_address serve_cached_limiter_other_route
        serve_cached_ping)
qed

text \<open>
  From the empty state: the first request of the address opens the window and is served;
  after 100 more requests in the window the next one is denied.
\<close>

theorem rate_limit_per_address_witness:
  "res_status (fst (serve_cached example_env
       (example_request example_instagram_url ''instagram'' ''10.0.0.1'' 0) example_state)) = 200
   \<and> fst (serve_cached example_env
        (example_request example_instagram_url ''instagram'' ''10.0.0.1'' 9)
        (run_cached example_env
          (replicate 100 (example_request example_instagram_url ''instagram'' ''10.0.0.1'' 5))
          (snd (serve_cached example_env
             (example_request example_instagram_url ''instagram'' ''10.0.0.1'' 0)
             example_state))))
     = json_reply (429, limit_message) security_headers"
proof -
  let ?rq = "\<lambda>t. example_request example_instagram_url ''instagram'' ''10.0.0.1'' t"
  let ?st1 = "snd (serve_cached example_env (?rq 0) example_state)"
  have route: "is_video_route (?rq t)" "cors_ok example_env (?rq t)" for t
    by (simp_all add: example_request_def is_video_route_def is_get_def route_path_def
        toLowerCase_def toLowerChar_def cors_ok_def)
  have cnt: "counted example_env ''10.0.0.1'' (?rq t)" for t
    using route[of t] by (simp add: counted_def) (simp add: example_request_def)
  have first: "serve_cached example_env (?rq 0) example_state
      = (json_reply (200, instagram_videoInfo example_ig ''https://cdn.example.net/a.mp4'')
           security_headers,
         \<lparr>st_cache = cache_set 0 Map.empty (cacheKey example_instagram_url)
              (instagram_videoInfo example_ig ''https://cdn.example.net/a.mp4''),
          st_limiter = [''10.0.0.1'' \<mapsto> (1, 0)]\<rparr>)"
    by (subst serve_cached_video[OF route])
      (simp add: limiter_hit_def max_requests_def example_state_def example_request_def
        cached_handler_defs cache_get_def example_env_def example_instagram_url_def
        example_ig_def Let_def)
  have entry: "st_limiter ?st1 ''10.0.0.1'' = Some (1, 0)"
    by (simp add: first)
  have times: "\<forall>rq \<in> set (replicate 100 (?rq 5)). req_time rq < 0 + windowMs"
    by (simp add: example_request_def windowMs_def)
  have many: "max_requests
      < 1 + length (filter (counted example_env ''10.0.0.1'') (replicate 100 (?rq 5)))"
    using cnt[of 5] by (simp add: max_requests_def)
  have last: "req_time (?rq 9) < 0 + windowMs"
    by (simp add: example_request_def windowMs_def)
  from rate_limit_per_address[OF entry times many cnt[of 9] last] first
  show ?thesis by (simp add: json_reply_def)
qed

text \<open>
  C9. The claim: every response carries the headers \<^verbatim>\<open>X-Content-Type-Options\<close> and
  \<^verbatim>\<open>X-XSS-Protection\<close>, in both variants. The simple variant registers the layer that
  sets them last, after the routes and after the 404 handler, which answers every
  request that reaches it; so the layer never runs, and no response of the simple
  variant carries either header.
\<close>

theorem simple_variant_sets_no_security_header:
  "res_headers (fst (serve_simple E rq l)) = []
   \<and> map_of (res_headers (fst (serve_simple E rq l))) ''X-Content-Type-Options'' = None
   \<and> map_of (res_headers (fst (serve_simple E rq l))) ''X-XSS-Protection'' = None"
proof -
  have "res_headers (fst (serve_simple E rq l)) = []"
    by (simp add: serve_simple_def app_simple_def cors_simple_def cors_allowed_def
        express_json_def swagger_docs_def root_route_simple_def video_route_simple_def
        not_found_simple_def json_reply_def split: prod.splits)
  then show ?thesis by simp
qed

text \<open>
  C10. In the cached variant the cache lookup precedes the platform switch: for a
  non-empty \<^verbatim>\<open>url\<close> whose cache entry is alive and holds a success response, and for
  every non-empty \<^verbatim>\<open>platform\<close> value, the handler answers 200 with the cached
  response, leaves the cache as it is and calls no adapter, whatever the platform value
  and whatever the validator would say of the URL.
\<close>

theorem cache_hit_bypasses_platform_checks:
  assumes "u \<noteq> []" and "platform \<noteq> []"
    and "cache_get t c (cacheKey u) = Some v" and "is_success v"
  shows "api_video_cached E t (Some u) (Some platform) c = ((200, v), c, [])"
  using assms by (simp add: api_video_cached_def is_success_truthy)

text \<open>
  A cached entry under a URL of neither platform is returned for the platform values
  \<^verbatim>\<open>tiktok\<close> and \<^verbatim>\<open>youtube\<close> alike.
\<close>

theorem cache_hit_bypasses_platform_checks_witness:
  "detectPlatform (url_hostname example_env) example_other_url = None
   \<and> \<not> validateURL example_env example_other_url
   \<and> api_video_cached example_env 1000 (Some example_other_url) (Some ''tiktok'') example_cache
       = ((200, instagram_videoInfo example_ig ''https://cdn.example.net/a.mp4''),
          example_cache, [])
   \<and> api_video_cached example_env 1000 (Some example_other_url) (Some ''youtube'') example_cache
       = ((200, instagram_videoInfo example_ig ''https://cdn.example.net/a.mp4''),
          example_cache, [])"
proof -
  have hit: "cache_get 1000 example_cache (cacheKey example_other_url)
               = Some (instagram_videoInfo example_ig ''https://cdn.example.net/a.mp4'')"
    by (simp add: cache_get_def example_cache_def clone_instagram_videoInfo)
  have ne: "example_other_url \<noteq> []" "''tiktok'' \<noteq> []" "''youtube'' \<noteq> []"
    by (simp_all add: example_other_url_def)
  have nd: "detectPlatform (url_hostname example_env) example_other_url = None"
    by (simp add: example_defs detectPlatform_def toLowerCase_def toLowerChar_def)
  have nv: "\<not> validateURL example_env example_other_url"
    by (simp add: example_defs)
  show ?thesis
    using cache_hit_bypasses_platform_checks[OF ne(1) ne(2) hit is_success_instagram_videoInfo,
        of example_env]
      cache_hit_bypasses_platform_checks[OF ne(1) ne(3) hit is_success_instagram_videoInfo,
        of example_env]
      nd nv
    by simp
qed

end
